theory Spec2Isabelle
  imports Complex_Main
begin

section \<open>Data model (types.ts)\<close>

text \<open>
  JavaScript numbers are modelled as reals: the claims are about the arithmetic the
  stitcher writes down (sums, quotients, \<open>Math.max\<close>, \<open>Math.min\<close>), not about
  rounding. An optional field (\<open>trimStart?: number\<close>) is an \<open>option\<close>.
  Only the fields of \<open>Scene\<close> and \<open>BackgroundMusic\<close> that \<open>stitchVideos\<close>
  reads are kept.
\<close>

datatype TransitionType = T_none | T_fade | T_wipe_left | T_wipe_right | T_slide_left | T_slide_right

datatype SceneStatus = S_pending | S_generating | S_completed | S_error

record Transition =
  ttype :: TransitionType
  tduration :: real

record Scene =
  scene_number :: nat
  status :: SceneStatus
  videoUrl :: "string option"
  trimStart :: "real option"
  trimEnd :: "real option"
  overlayText :: "string option"
  transition :: "Transition option"

record BackgroundMusic =
  url :: string
  volume :: real

datatype AspectRatio = AR_16_9 | AR_9_16

datatype ExportResolution = R_720p | R_1080p

datatype ExportFormat = F_mp4 | F_mov

section \<open>Pure parts of stitchVideos (services/videoProcessor.ts)\<close>

text \<open>\<open>x || 0\<close> on an optional number: undefined and 0 both give 0.\<close>

definition orZero :: "real option \<Rightarrow> real" where
  "orZero x = (case x of None \<Rightarrow> 0 | Some v \<Rightarrow> if v = 0 then 0 else v)"

text \<open>\<open>s.status === 'completed' && s.videoUrl\<close>: the URL must be present and non-empty.\<close>

definition isValidScene :: "Scene \<Rightarrow> bool" where
  "isValidScene s = (status s = S_completed \<and> (case videoUrl s of None \<Rightarrow> False | Some u \<Rightarrow> u \<noteq> []))"

definition validScenesOf :: "Scene list \<Rightarrow> Scene list" where
  "validScenesOf scenes = filter isValidScene scenes"

text \<open>Canvas size from resolution and aspect ratio (lines 82-90).\<close>

definition canvasWidth :: "AspectRatio \<Rightarrow> ExportResolution \<Rightarrow> real" where
  "canvasWidth aspectRatio resolution =
     (if aspectRatio = AR_16_9 then (if resolution = R_1080p then 1920 else 1280)
      else (if resolution = R_1080p then 1080 else 720))"

definition canvasHeight :: "AspectRatio \<Rightarrow> ExportResolution \<Rightarrow> real" where
  "canvasHeight aspectRatio resolution =
     (if aspectRatio = AR_16_9 then (if resolution = R_1080p then 1080 else 720)
      else (if resolution = R_1080p then 1920 else 1280))"

text \<open>
  Recorder set-up (lines 151-160): the MIME type starts as \<open>video/webm\<close> and is
  replaced by the first supported entry of the preference chain. \<open>isTypeSupported\<close>
  is the host's \<open>MediaRecorder.isTypeSupported\<close>.
\<close>

definition selectMimeType :: "ExportFormat \<Rightarrow> (string \<Rightarrow> bool) \<Rightarrow> string" where
  "selectMimeType format isTypeSupported =
     (if format = F_mp4 \<or> format = F_mov then
        (if isTypeSupported ''video/mp4'' then ''video/mp4''
         else if isTypeSupported ''video/webm;codecs=h264'' then ''video/webm;codecs=h264''
         else if isTypeSupported ''video/webm;codecs=vp9'' then ''video/webm;codecs=vp9''
         else ''video/webm'')
      else ''video/webm'')"

definition videoBitsPerSecond :: "ExportResolution \<Rightarrow> real" where
  "videoBitsPerSecond resolution = (if resolution = R_1080p then 8000000 else 5000000)"

subsection \<open>Per-scene timing (lines 193-221)\<close>

text \<open>\<open>hasNext\<close> and \<open>nextScene\<close> of loop iteration \<open>i\<close>.\<close>

definition hasNextAt :: "Scene list \<Rightarrow> nat \<Rightarrow> bool" where
  "hasNextAt validScenes i = (i + 1 < length validScenes)"

definition nextSceneAt :: "Scene list \<Rightarrow> nat \<Rightarrow> Scene option" where
  "nextSceneAt validScenes i =
     (if hasNextAt validScenes i then Some (validScenes ! (i + 1)) else None)"

text \<open>\<open>nextScene?.transition\<close>.\<close>

definition transitionOf :: "Scene option \<Rightarrow> Transition option" where
  "transitionOf nextScene = (case nextScene of None \<Rightarrow> None | Some s \<Rightarrow> transition s)"

text \<open>\<open>transition?.type || 'none'\<close>.\<close>

definition transitionTypeOf :: "Transition option \<Rightarrow> TransitionType" where
  "transitionTypeOf tr = (case tr of None \<Rightarrow> T_none | Some t \<Rightarrow> ttype t)"

text \<open>\<open>(transitionType !== 'none' && transition?.duration) ? transition.duration : 0\<close>.\<close>

definition transitionDurationOf :: "Transition option \<Rightarrow> real" where
  "transitionDurationOf tr =
     (case tr of None \<Rightarrow> 0
      | Some t \<Rightarrow> if transitionTypeOf tr \<noteq> T_none \<and> tduration t \<noteq> 0 then tduration t else 0)"

text \<open>The transition (kind, duration) rendered after scene \<open>i\<close> of the timeline.\<close>

definition transitionAt :: "Scene list \<Rightarrow> nat \<Rightarrow> TransitionType \<times> real" where
  "transitionAt validScenes i =
     (let tr = transitionOf (nextSceneAt validScenes i)
      in (transitionTypeOf tr, transitionDurationOf tr))"

text \<open>\<open>end = Math.min(duration, duration - endTrim)\<close>.\<close>

definition sceneEnd :: "real \<Rightarrow> real \<Rightarrow> real" where
  "sceneEnd duration endTrim = min duration (duration - endTrim)"

text \<open>\<open>soloEndTime = hasNext ? Math.max(start, end - transitionDuration) : end\<close>.\<close>

definition soloEndTime :: "bool \<Rightarrow> real \<Rightarrow> real \<Rightarrow> real \<Rightarrow> real" where
  "soloEndTime hasNext start endT transitionDuration =
     (if hasNext then max start (endT - transitionDuration) else endT)"

text \<open>
  The solo interval of scene \<open>i\<close>: the seek target \<open>start\<close> and \<open>soloEndTime\<close>,
  given the duration the slot's video element reports for the scene's media.
\<close>

definition soloStartAt :: "Scene list \<Rightarrow> nat \<Rightarrow> real" where
  "soloStartAt validScenes i = orZero (trimStart (validScenes ! i))"

definition soloEndAt :: "Scene list \<Rightarrow> nat \<Rightarrow> real \<Rightarrow> real" where
  "soloEndAt validScenes i duration =
     soloEndTime (hasNextAt validScenes i) (soloStartAt validScenes i)
       (sceneEnd duration (orZero (trimEnd (validScenes ! i))))
       (snd (transitionAt validScenes i))"

subsection \<open>Cover-fit drawing (drawSolo lines 243-249, drawScaled lines 315-325)\<close>

text \<open>A rectangle as the canvas API takes it: corner, width, height.\<close>

record Rect =
  rx :: real
  ry :: real
  rw :: real
  rh :: real

definition coverScale :: "real \<Rightarrow> real \<Rightarrow> real \<Rightarrow> real \<Rightarrow> real" where
  "coverScale width height vW vH = max (width / vW) (height / vH)"

text \<open>
  The destination rectangle of \<open>ctx.drawImage(video, dx, dy, vW * scale, vH * scale)\<close>;
  \<open>drawSolo\<close> is the case \<open>xOffset = 0\<close>. For a source of width or height 0
  JavaScript divides to Infinity or NaN where HOL's division gives 0; the properties
  below are about sources of positive size.
\<close>

definition drawScaledRect :: "real \<Rightarrow> real \<Rightarrow> real \<Rightarrow> real \<Rightarrow> real \<Rightarrow> Rect" where
  "drawScaledRect width height vW vH xOffset =
     (let scale = coverScale width height vW vH;
          dx = (width - vW * scale) / 2 + xOffset;
          dy = (height - vH * scale) / 2
      in \<lparr>rx = dx, ry = dy, rw = vW * scale, rh = vH * scale\<rparr>)"

text \<open>A rectangle contains the whole output surface \<open>[0,width] \<times> [0,height]\<close>.\<close>

definition coversSurface :: "Rect \<Rightarrow> real \<Rightarrow> real \<Rightarrow> bool" where
  "coversSurface r width height =
     (rx r \<le> 0 \<and> ry r \<le> 0 \<and> width \<le> rx r + rw r \<and> height \<le> ry r + rh r)"

subsection \<open>Wipe clip regions (drawTrans lines 332-353)\<close>

text \<open>\<open>ctx.rect(revealX, 0, width, height)\<close> with \<open>revealX = width * (1 - t)\<close>.\<close>

definition wipeLeftClip :: "real \<Rightarrow> real \<Rightarrow> real \<Rightarrow> Rect" where
  "wipeLeftClip width height t =
     (let revealX = width * (1 - t) in \<lparr>rx = revealX, ry = 0, rw = width, rh = height\<rparr>)"

text \<open>\<open>ctx.rect(0, 0, revealW, height)\<close> with \<open>revealW = width * t\<close>.\<close>

definition wipeRightClip :: "real \<Rightarrow> real \<Rightarrow> real \<Rightarrow> Rect" where
  "wipeRightClip width height t =
     (let revealW = width * t in \<lparr>rx = 0, ry = 0, rw = revealW, rh = height\<rparr>)"

text \<open>An axis-parallel box by its edges, for the part of a clip path that lies on the canvas.\<close>

record Box =
  left :: real
  top :: real
  right :: real
  bottom :: real

definition clipToSurface :: "real \<Rightarrow> real \<Rightarrow> Rect \<Rightarrow> Box" where
  "clipToSurface width height r =
     \<lparr>left = max 0 (rx r), top = max 0 (ry r),
      right = min width (rx r + rw r), bottom = min height (ry r + rh r)\<rparr>"

text \<open>Reflection of a box under \<open>x \<mapsto> width - x\<close>.\<close>

definition mirrorBox :: "real \<Rightarrow> Box \<Rightarrow> Box" where
  "mirrorBox width b = \<lparr>left = width - right b, top = top b, right = width - left b, bottom = bottom b\<rparr>"

section \<open>The stitching engine as a state machine\<close>

text \<open>
  \<open>stitchVideos\<close> is an async function driven by the host: media events, animation
  frames, the clock. The model threads an explicit engine state through the same
  statements in the same order and records each externally visible action as an
  event. What the host decides is read from a \<open>Host\<close> record: whether an awaited
  media event ever fires, whether \<open>play()\<close> rejects, and what each animation frame
  observes. A render loop consumes the frames the host delivers; when they run
  out before the loop's exit test holds, its promise never resolves.
  The caption overlay (\<open>drawWrappedText\<close>) draws on top of a solo frame and changes
  nothing else; it is left out.
\<close>

text \<open>
  \<open>new Error(message)\<close>, and the \<open>NotSupportedError\<close> exception with which the
  host's \<open>MediaRecorder\<close> constructor refuses a MIME type it cannot record.
\<close>

datatype error = Err string | NotSupportedError

text \<open>How the promise returned by \<open>stitchVideos\<close> settles, if it does.\<close>

datatype result = Resolved string | Rejected error | Pending

text \<open>
  Control inside the try block: still running, an exception has been thrown, or an
  awaited promise never resolves.
\<close>

datatype flow = Running | Thrown | Stalled

datatype progressMessage =
    PreparingScene1
  | ProcessingScene nat
  | PreparingTransitionTo nat
  | Finalizing

datatype event =
    CreateCanvas real real
  | CreateAudioContext
  | CreateSlot nat
  | CreateBgMusic string real real
  | CreateRecorder string real
  | RecorderStart
  | RecorderPause
  | RecorderResume
  | RecorderStop
  | BgMusicPlay
  | BgMusicPause
  | OnProgress real progressMessage
  | SetSrc nat string
  | LoadedMetadata nat
  | SetCurrentTime nat real
  | Seeked nat
  | VideoPlay nat
  | VideoPause nat
  | SetGain nat real
  | DrawImage nat real "Rect option" Rect
  | ReleaseResources

text \<open>What one call of \<open>drawSolo\<close> reads from the current video element and the clock.\<close>

record SoloFrame =
  paused :: bool
  ended :: bool
  currentTime :: real
  now :: real

text \<open>
  The host: whether \<open>getContext('2d')\<close> returns a context,
  \<open>MediaRecorder.isTypeSupported\<close>, whether \<open>loadedmetadata\<close> and
  \<open>seeked\<close> ever fire for a source, whether \<open>play()\<close> rejects for it, the
  metadata of the media behind a source, the frames each render loop observes for
  timeline scene \<open>i\<close>, and whether the current video is found paused before the
  transition out of scene \<open>i\<close>.
\<close>

record Host =
  hasContext2d :: bool
  isTypeSupported :: "string \<Rightarrow> bool"
  metadataLoads :: "string \<Rightarrow> bool"
  seekCompletes :: "string \<Rightarrow> bool"
  playRejects :: "string \<Rightarrow> bool"
  mediaDuration :: "string \<Rightarrow> real"
  mediaWidth :: "string \<Rightarrow> real"
  mediaHeight :: "string \<Rightarrow> real"
  soloFrames :: "nat \<Rightarrow> SoloFrame list"
  transFrames :: "nat \<Rightarrow> real list"
  pausedBeforeTransition :: "nat \<Rightarrow> bool"

text \<open>
  \<open>slotSrc\<close> and \<open>slotGain\<close> hold \<open>slots[k].video.src\<close> and
  \<open>slots[k].gainNode.gain.value\<close>; \<open>bgMusicEl\<close> holds the background element's
  \<open>src\<close> and \<open>volume\<close>, \<open>bgGain\<close> the value of its gain node.
\<close>

record Engine =
  activeSlotIndex :: nat
  lastProgressUpdate :: real
  slotSrc :: "string list"
  slotGain :: "real list"
  bgMusicEl :: "(string \<times> real) option"
  bgGain :: "real option"
  events :: "event list"

definition noEngine :: Engine where
  "noEngine = \<lparr>activeSlotIndex = 0, lastProgressUpdate = 0, slotSrc = [], slotGain = [],
     bgMusicEl = None, bgGain = None, events = []\<rparr>"

text \<open>
  Before set-up there are no slots; afterwards there are exactly two, and
  \<open>activeSlotIndex\<close> is 0 or 1, so every slot index the engine uses is in range.
\<close>

definition emit :: "event \<Rightarrow> Engine \<Rightarrow> Engine" where
  "emit e st = st\<lparr>events := events st @ [e]\<rparr>"

text \<open>Sequencing of awaited steps: a throw or a stall skips what follows.\<close>

definition andThen :: "flow \<times> Engine \<Rightarrow> (Engine \<Rightarrow> flow \<times> Engine) \<Rightarrow> flow \<times> Engine" where
  "andThen r f = (if fst r = Running then f (snd r) else r)"

text \<open>\<open>createSlot\<close> (lines 103-116): a fresh video element and a gain node at its default 1.\<close>

definition createSlot :: "Engine \<Rightarrow> Engine" where
  "createSlot st =
     emit (CreateSlot (length (slotSrc st)))
       (st\<lparr>slotSrc := slotSrc st @ [[]], slotGain := slotGain st @ [1]\<rparr>)"

text \<open>Background music set-up (lines 121-148); the preload wait always ends (3 s timer).\<close>

definition setupBgMusic :: "BackgroundMusic option \<Rightarrow> Engine \<Rightarrow> Engine" where
  "setupBgMusic bgMusic st =
     (case bgMusic of
        None \<Rightarrow> st
      | Some bg \<Rightarrow>
          if url bg \<noteq> [] then
            emit (CreateBgMusic (url bg) (volume bg) (volume bg))
              (st\<lparr>bgMusicEl := Some (url bg, volume bg), bgGain := Some (volume bg)\<rparr>)
          else st)"

definition setGain :: "nat \<Rightarrow> real \<Rightarrow> Engine \<Rightarrow> Engine" where
  "setGain k g st = emit (SetGain k g) (st\<lparr>slotGain := (slotGain st)[k := g]\<rparr>)"

text \<open>\<open>scene.videoUrl!\<close>.\<close>

definition urlOf :: "Scene \<Rightarrow> string" where
  "urlOf s = (case videoUrl s of None \<Rightarrow> [] | Some u \<Rightarrow> u)"

text \<open>\<open>video.src = u; await waitForEvent(video, 'loadedmetadata')\<close>.\<close>

definition loadInto :: "Host \<Rightarrow> nat \<Rightarrow> string \<Rightarrow> Engine \<Rightarrow> flow \<times> Engine" where
  "loadInto h k u st =
     (let st1 = emit (SetSrc k u) (st\<lparr>slotSrc := (slotSrc st)[k := u]\<rparr>)
      in if metadataLoads h u then (Running, emit (LoadedMetadata k) st1) else (Stalled, st1))"

text \<open>\<open>video.currentTime = time; await waitForEvent(video, 'seeked')\<close>.\<close>

definition seekTo :: "Host \<Rightarrow> nat \<Rightarrow> real \<Rightarrow> Engine \<Rightarrow> flow \<times> Engine" where
  "seekTo h k time st =
     (let st1 = emit (SetCurrentTime k time) st
      in if seekCompletes h (slotSrc st ! k) then (Running, emit (Seeked k) st1) else (Stalled, st1))"

text \<open>\<open>await video.play()\<close>: a rejection is thrown inside the try block.\<close>

definition playVideo :: "Host \<Rightarrow> nat \<Rightarrow> Engine \<Rightarrow> flow \<times> Engine" where
  "playVideo h k st =
     (if playRejects h (slotSrc st ! k) then (Thrown, st) else (Running, emit (VideoPlay k) st))"

text \<open>The destination rectangle \<open>drawScaled\<close> and \<open>drawSolo\<close> compute for a slot's video.\<close>

definition drawSlot :: "Host \<Rightarrow> real \<Rightarrow> real \<Rightarrow> nat \<Rightarrow> real \<Rightarrow> Rect option \<Rightarrow> real \<Rightarrow> Engine \<Rightarrow> Engine" where
  "drawSlot h width height k alpha clip xOffset st =
     emit (DrawImage k alpha clip
             (drawScaledRect width height (mediaWidth h (slotSrc st ! k))
                (mediaHeight h (slotSrc st ! k)) xOffset)) st"

text \<open>The throttled progress report of \<open>drawSolo\<close> (lines 258-263).\<close>

definition reportSolo :: "Scene list \<Rightarrow> nat \<Rightarrow> real \<Rightarrow> Engine \<Rightarrow> Engine" where
  "reportSolo validScenes i nowT st =
     (if nowT - lastProgressUpdate st > 100 then
        (emit (OnProgress (real i / real (length validScenes) * 100)
                 (ProcessingScene (scene_number (validScenes ! i)))) st)
          \<lparr>lastProgressUpdate := nowT\<rparr>
      else st)"

text \<open>The solo render loop (lines 233-268), one \<open>SoloFrame\<close> per call of \<open>drawSolo\<close>.\<close>

fun drawSolo :: "Host \<Rightarrow> real \<Rightarrow> real \<Rightarrow> Scene list \<Rightarrow> nat \<Rightarrow> nat \<Rightarrow> real \<Rightarrow> SoloFrame list \<Rightarrow> Engine \<Rightarrow> flow \<times> Engine" where
  "drawSolo h width height validScenes i k soloEnd [] st = (Stalled, st)"
| "drawSolo h width height validScenes i k soloEnd (f # fs) st =
     (if paused f \<or> ended f \<or> currentTime f \<ge> soloEnd then (Running, st)
      else drawSolo h width height validScenes i k soloEnd fs
             (reportSolo validScenes i (now f) (drawSlot h width height k 1 None 0 st)))"

text \<open>
  Normalised transition time (lines 300-301):
  \<open>t = Math.min(1, Math.max(0, tCurrent / (transitionDuration || 0.001)))\<close>.
\<close>

definition transitionProgress :: "real \<Rightarrow> real \<Rightarrow> real \<Rightarrow> real" where
  "transitionProgress nextCurrentTime nextStart transitionDuration =
     (let tCurrent = nextCurrentTime - nextStart
      in min 1 (max 0 (tCurrent / (if transitionDuration = 0 then 0.001 else transitionDuration))))"

text \<open>The body of \<open>drawTrans\<close> below its exit test (lines 308-364).\<close>

definition drawTransFrame :: "Host \<Rightarrow> real \<Rightarrow> real \<Rightarrow> TransitionType \<Rightarrow> nat \<Rightarrow> nat \<Rightarrow> real \<Rightarrow> Engine \<Rightarrow> Engine" where
  "drawTransFrame h width height transitionType cur nxt t st =
     (let st1 = setGain nxt t (setGain cur (1 - t) st)
      in if transitionType = T_fade then
           drawSlot h width height nxt t None 0 (drawSlot h width height cur 1 None 0 st1)
         else if transitionType = T_wipe_left then
           drawSlot h width height nxt 1 (Some (wipeLeftClip width height t)) 0
             (drawSlot h width height cur 1 None 0 st1)
         else if transitionType = T_wipe_right then
           drawSlot h width height nxt 1 (Some (wipeRightClip width height t)) 0
             (drawSlot h width height cur 1 None 0 st1)
         else if transitionType = T_slide_left then
           drawSlot h width height nxt 1 None (width * (1 - t))
             (drawSlot h width height cur 1 None (- width * t) st1)
         else if transitionType = T_slide_right then
           drawSlot h width height nxt 1 None (- width * (1 - t))
             (drawSlot h width height cur 1 None (width * t) st1)
         else drawSlot h width height nxt 1 None 0 st1)"

text \<open>
  One call of \<open>drawTrans\<close> (lines 297-367) at normalised time \<open>t\<close>: it either ends
  the phase (\<open>True\<close>) leaving the engine as it is, or renders a frame.
\<close>

definition drawTransTick :: "Host \<Rightarrow> real \<Rightarrow> real \<Rightarrow> TransitionType \<Rightarrow> nat \<Rightarrow> nat \<Rightarrow> real \<Rightarrow> Engine \<Rightarrow> bool \<times> Engine" where
  "drawTransTick h width height transitionType cur nxt t st =
     (if t \<ge> 1 then (True, st)
      else (False, drawTransFrame h width height transitionType cur nxt t st))"

text \<open>The transition render loop, one reading of \<open>nextSlot.video.currentTime\<close> per call.\<close>

fun drawTrans :: "Host \<Rightarrow> real \<Rightarrow> real \<Rightarrow> TransitionType \<Rightarrow> real \<Rightarrow> nat \<Rightarrow> nat \<Rightarrow> real \<Rightarrow> real list \<Rightarrow> Engine \<Rightarrow> flow \<times> Engine" where
  "drawTrans h width height transitionType transitionDuration cur nxt nextStart [] st = (Stalled, st)"
| "drawTrans h width height transitionType transitionDuration cur nxt nextStart (ct # cts) st =
     (case drawTransTick h width height transitionType cur nxt
             (transitionProgress ct nextStart transitionDuration) st of
        (True, st') \<Rightarrow> (Running, st')
      | (False, st') \<Rightarrow>
          drawTrans h width height transitionType transitionDuration cur nxt nextStart cts st')"

text \<open>The swap after the transition loop (lines 371-379).\<close>

definition swapSlots :: "nat \<Rightarrow> nat \<Rightarrow> Engine \<Rightarrow> Engine" where
  "swapSlots cur nxt st =
     (setGain nxt 1 (setGain cur 1 (emit (VideoPause cur) st)))
       \<lparr>activeSlotIndex := 1 - activeSlotIndex st\<rparr>"

text \<open>The branch \<open>if (hasNext && nextScene)\<close> (lines 271-379).\<close>

definition transitionInto :: "Host \<Rightarrow> real \<Rightarrow> real \<Rightarrow> Scene list \<Rightarrow> nat \<Rightarrow> Scene \<Rightarrow> nat \<Rightarrow> nat \<Rightarrow> Engine \<Rightarrow> flow \<times> Engine" where
  "transitionInto h width height validScenes i nextScene cur nxt st =
     (let st1 = emit RecorderPause st;
          st2 = emit (OnProgress ((real i + 0.9) / real (length validScenes) * 100)
                        (PreparingTransitionTo (scene_number nextScene))) st1;
          nextStart = orZero (trimStart nextScene)
      in andThen (loadInto h nxt (urlOf nextScene) st2) (\<lambda>s1.
         andThen (seekTo h nxt nextStart s1) (\<lambda>s2.
         andThen (playVideo h nxt s2) (\<lambda>s3.
         andThen (if pausedBeforeTransition h i then playVideo h cur s3 else (Running, s3)) (\<lambda>s4.
         andThen (drawTrans h width height (fst (transitionAt validScenes i))
                    (snd (transitionAt validScenes i)) cur nxt nextStart (transFrames h i)
                    (emit RecorderResume s4)) (\<lambda>s5.
         (Running, swapSlots cur nxt s5)))))))"

text \<open>
  The solo part of one iteration of the scene loop (lines 207-268): the timing is read
  from the current slot, only the first scene is sought and started (lines 226-230; a
  later scene is already playing from the transition into it), then the solo loop runs.
\<close>

definition soloPhase :: "Host \<Rightarrow> real \<Rightarrow> real \<Rightarrow> Scene list \<Rightarrow> nat \<Rightarrow> Engine \<Rightarrow> flow \<times> Engine" where
  "soloPhase h width height validScenes i st =
     (let cur = activeSlotIndex st;
          start = soloStartAt validScenes i;
          soloEnd = soloEndAt validScenes i (mediaDuration h (slotSrc st ! cur))
      in andThen
           (if i = 0 then andThen (seekTo h cur start st) (playVideo h cur) else (Running, st))
           (drawSolo h width height validScenes i cur soloEnd (soloFrames h i)))"

text \<open>One iteration of the scene loop (lines 193-384).\<close>

definition playScene :: "Host \<Rightarrow> real \<Rightarrow> real \<Rightarrow> Scene list \<Rightarrow> nat \<Rightarrow> Engine \<Rightarrow> flow \<times> Engine" where
  "playScene h width height validScenes i st =
     (let cur = activeSlotIndex st;
          nxt = 1 - cur
      in andThen (soloPhase h width height validScenes i st)
           (\<lambda>s. case nextSceneAt validScenes i of
                  None \<Rightarrow> (Running, emit (VideoPause cur) s)
                | Some nextScene \<Rightarrow> transitionInto h width height validScenes i nextScene cur nxt s))"

function sceneLoop :: "Host \<Rightarrow> real \<Rightarrow> real \<Rightarrow> Scene list \<Rightarrow> nat \<Rightarrow> Engine \<Rightarrow> flow \<times> Engine" where
  "sceneLoop h width height validScenes i st =
     (if i < length validScenes then
        (let r = playScene h width height validScenes i st
         in if fst r = Running then sceneLoop h width height validScenes (i + 1) (snd r) else r)
      else (Running, st))"
  by pat_completeness auto
termination
  by (relation "measure (\<lambda>(h, width, height, validScenes, i, st). length validScenes - i)") auto

declare sceneLoop.simps [simp del]

text \<open>The try block (lines 185-396) up to the returned promise.\<close>

definition tryBlock :: "Host \<Rightarrow> real \<Rightarrow> real \<Rightarrow> Scene list \<Rightarrow> Engine \<Rightarrow> flow \<times> Engine" where
  "tryBlock h width height validScenes st =
     andThen (loadInto h (activeSlotIndex st) (urlOf (validScenes ! 0))
                (emit (OnProgress 0 PreparingScene1) st)) (\<lambda>s1.
     andThen (sceneLoop h width height validScenes 0 s1) (\<lambda>s2.
       (let s3 = emit RecorderStop (emit (OnProgress 100 Finalizing) s2)
        in (Running, if bgMusicEl s3 \<noteq> None then emit BgMusicPause s3 else s3))))"

text \<open>
  \<open>stitchVideos\<close>. The result of a completed stitch is an object URL for a blob of the
  selected MIME type; the model returns that type. The \<open>finally\<close> block runs when
  the try block returns or throws, not while it is still waiting.
  \<open>new MediaRecorder(stream, {mimeType})\<close> (line 168) stands before the try block:
  the host throws \<open>NotSupportedError\<close> there for a type it does not support, and
  the stitch is rejected with that exception, the \<open>finally\<close> block not being
  reached.
\<close>

definition stitchVideos :: "Host \<Rightarrow> Scene list \<Rightarrow> BackgroundMusic option \<Rightarrow> ExportResolution \<Rightarrow> ExportFormat \<Rightarrow> AspectRatio \<Rightarrow> result \<times> Engine" where
  "stitchVideos h scenes bgMusic resolution format aspectRatio =
     (let validScenes = validScenesOf scenes in
      if length validScenes = 0 then (Rejected (Err ''No completed videos to stitch.''), noEngine)
      else
        let width = canvasWidth aspectRatio resolution;
            height = canvasHeight aspectRatio resolution;
            st1 = emit (CreateCanvas width height) noEngine
        in if \<not> hasContext2d h then (Rejected (Err ''Could not get canvas context''), st1)
           else
             let st2 = createSlot (createSlot (emit CreateAudioContext st1));
                 st3 = setupBgMusic bgMusic st2;
                 mimeType = selectMimeType format (isTypeSupported h)
             in if \<not> isTypeSupported h mimeType then (Rejected NotSupportedError, st3)
                else
                  let st4 = emit RecorderStart
                              (emit (CreateRecorder mimeType (videoBitsPerSecond resolution)) st3);
                      st5 = (if bgMusicEl st4 \<noteq> None then emit BgMusicPlay st4 else st4);
                      r = tryBlock h width height validScenes st5
                  in if fst r = Running then (Resolved mimeType, emit ReleaseResources (snd r))
                     else if fst r = Thrown then
                       (Rejected (Err ''Stitching failed.''), emit ReleaseResources (snd r))
                     else (Pending, snd r))"

text \<open>The percent values passed to the progress callback, in order.\<close>

fun progressValues :: "event list \<Rightarrow> real list" where
  "progressValues [] = []"
| "progressValues (OnProgress p m # es) = p # progressValues es"
| "progressValues (e # es) = progressValues es"

section \<open>Observations on an event trace\<close>

text \<open>
  The state of the \<open>MediaRecorder\<close> after an event: \<open>start()\<close> and \<open>resume()\<close>
  make it record, \<open>pause()\<close> pauses it, \<open>stop()\<close> ends it.
\<close>

datatype recorderState = Rec_inactive | Rec_recording | Rec_paused

fun recorderAfter :: "recorderState \<Rightarrow> event \<Rightarrow> recorderState" where
  "recorderAfter rs RecorderStart = Rec_recording"
| "recorderAfter rs RecorderPause = Rec_paused"
| "recorderAfter rs RecorderResume = Rec_recording"
| "recorderAfter rs RecorderStop = Rec_inactive"
| "recorderAfter rs e = rs"

text \<open>The events that begin or end a load (awaiting metadata) or a seek.\<close>

fun isLoadOrSeek :: "event \<Rightarrow> bool" where
  "isLoadOrSeek (SetSrc k u) = True"
| "isLoadOrSeek (LoadedMetadata k) = True"
| "isLoadOrSeek (SetCurrentTime k time) = True"
| "isLoadOrSeek (Seeked k) = True"
| "isLoadOrSeek e = False"

text \<open>The recorder is paused at every load and seek event of the trace.\<close>

fun sinkPausedDuringLoads :: "recorderState \<Rightarrow> event list \<Rightarrow> bool" where
  "sinkPausedDuringLoads rs [] = True"
| "sinkPausedDuringLoads rs (e # es) =
     ((if isLoadOrSeek e then rs = Rec_paused else True)
      \<and> sinkPausedDuringLoads (recorderAfter rs e) es)"

text \<open>
  The level at which the background track reaches the mix. A media element routed
  through a \<open>MediaElementAudioSourceNode\<close> keeps applying its own \<open>volume\<close> to what
  it plays; the gain node then scales that signal again.
\<close>

definition bgEffectiveVolume :: "Engine \<Rightarrow> real option" where
  "bgEffectiveVolume st =
     (case bgMusicEl st of
        None \<Rightarrow> None
      | Some el \<Rightarrow> (case bgGain st of None \<Rightarrow> None | Some g \<Rightarrow> Some (snd el * g)))"

text \<open>
  Every percent value reported so far is at most \<open>b\<close>, and the values are in
  non-decreasing order.
\<close>

definition progressBelow :: "real \<Rightarrow> Engine \<Rightarrow> bool" where
  "progressBelow b st = sorted (progressValues (events st) @ [b])"

text \<open>Every gain written in a trace lies in \<open>[0,1]\<close>.\<close>

fun gainWritesInRange :: "event list \<Rightarrow> bool" where
  "gainWritesInRange [] = True"
| "gainWritesInRange (SetGain k g # es) = (0 \<le> g \<and> g \<le> 1 \<and> gainWritesInRange es)"
| "gainWritesInRange (e # es) = gainWritesInRange es"

definition gainsOk :: "Engine \<Rightarrow> bool" where
  "gainsOk st = gainWritesInRange (events st)"

text \<open>The seeks of a trace: slot and target of every assignment to \<open>currentTime\<close>, in order.\<close>

fun seekTargets :: "event list \<Rightarrow> (nat \<times> real) list" where
  "seekTargets [] = []"
| "seekTargets (SetCurrentTime k time # es) = (k, time) # seekTargets es"
| "seekTargets (e # es) = seekTargets es"

text \<open>The number of frames drawn in a trace.\<close>

fun drawCount :: "event list \<Rightarrow> nat" where
  "drawCount [] = 0"
| "drawCount (DrawImage k alpha clip r # es) = Suc (drawCount es)"
| "drawCount (e # es) = drawCount es"

text \<open>
  A frame on which the solo loop keeps rendering: the clip is neither paused nor
  ended and its time is still below \<open>soloEnd\<close>.
\<close>

definition soloContinues :: "real \<Rightarrow> SoloFrame \<Rightarrow> bool" where
  "soloContinues soloEnd f = (\<not> paused f \<and> \<not> ended f \<and> currentTime f < soloEnd)"

text \<open>The trace of the second engine state continues that of the first.\<close>

definition traceExtends :: "Engine \<Rightarrow> Engine \<Rightarrow> bool" where
  "traceExtends st st' = (take (length (events st)) (events st') = events st)"

text \<open>
  The MIME types of the recorder set-up in the order in which they are preferred; the
  last one is the default that stands when none of the others is supported.
\<close>

definition codecPreference :: "string list" where
  "codecPreference =
     [''video/mp4'', ''video/webm;codecs=h264'', ''video/webm;codecs=vp9'', ''video/webm'']"

section \<open>Concrete inputs\<close>

definition exampleScene :: "string \<Rightarrow> real option \<Rightarrow> real option \<Rightarrow> Transition option \<Rightarrow> Scene" where
  "exampleScene u ts te tr =
     \<lparr>scene_number = 1, status = S_completed, videoUrl = Some u, trimStart = ts, trimEnd = te,
      overlayText = None, transition = tr\<rparr>"

text \<open>
  A host on which every media event fires and every \<open>play()\<close> succeeds, the only
  supported recording type is plain \<open>video/webm\<close>, every clip is 8 s of 1280x720,
  each solo loop sees one frame at 0 s and one at 8 s, and each transition loop reads
  0 s, 0.5 s, 1 s.
\<close>

definition exampleHost :: Host where
  "exampleHost =
     \<lparr>hasContext2d = True, isTypeSupported = (\<lambda>m. m = ''video/webm''), metadataLoads = (\<lambda>u. True),
      seekCompletes = (\<lambda>u. True), playRejects = (\<lambda>u. False), mediaDuration = (\<lambda>u. 8),
      mediaWidth = (\<lambda>u. 1280), mediaHeight = (\<lambda>u. 720),
      soloFrames = (\<lambda>i. [\<lparr>paused = False, ended = False, currentTime = 0, now = 1000\<rparr>,
                          \<lparr>paused = False, ended = False, currentTime = 8, now = 1016\<rparr>]),
      transFrames = (\<lambda>i. [0, 1 / 2, 1]), pausedBeforeTransition = (\<lambda>i. False)\<rparr>"

text \<open>The same host, except that \<open>play()\<close> rejects.\<close>

definition rejectingHost :: Host where
  "rejectingHost = exampleHost\<lparr>playRejects := (\<lambda>u. True)\<rparr>"

text \<open>Two fresh slots, as after set-up.\<close>

definition twoSlots :: Engine where
  "twoSlots = createSlot (createSlot noEngine)"

text \<open>The example host with no recording type supported, and with vp9 and plain webm only.\<close>

definition noCodecHost :: Host where
  "noCodecHost = exampleHost\<lparr>isTypeSupported := (\<lambda>m. False)\<rparr>"

definition vp9Host :: Host where
  "vp9Host = exampleHost\<lparr>isTypeSupported := (\<lambda>m. m = ''video/webm;codecs=vp9'' \<or> m = ''video/webm'')\<rparr>"

text \<open>
  The example host for a second scene trimmed by 3 s at its head and entered by a 1 s
  fade: the first solo loop sees frames at 0 s and 7 s, the transition loop reads
  3 s, 3.5 s, 4 s from the incoming clip, the second solo loop sees frames at 4 s and 8 s.
\<close>

definition trimmedHost :: Host where
  "trimmedHost =
     exampleHost
       \<lparr>soloFrames := (\<lambda>i. if i = 0
                          then [\<lparr>paused = False, ended = False, currentTime = 0, now = 1000\<rparr>,
                                \<lparr>paused = False, ended = False, currentTime = 7, now = 1016\<rparr>]
                          else [\<lparr>paused = False, ended = False, currentTime = 4, now = 3000\<rparr>,
                                \<lparr>paused = False, ended = False, currentTime = 8, now = 3016\<rparr>]),
        transFrames := (\<lambda>i. [3, 7 / 2, 4])\<rparr>"

text \<open>The engine after one transition frame at \<open>t = 1/2\<close> from slot 0 into slot 1.\<close>

definition halfway :: Engine where
  "halfway = snd (drawTransTick exampleHost 1280 720 T_fade 0 1 (1 / 2) twoSlots)"

section \<open>The progress trace of the engine\<close>

lemma progressValues_append:
  "progressValues (xs @ ys) = progressValues xs @ progressValues ys"
  by (induction xs rule: progressValues.induct) simp_all

lemma events_emit: "events (emit e st) = events st @ [e]"
  by (simp add: emit_def)

lemma progressValues_single:
  "progressValues [e] = (case e of OnProgress p m \<Rightarrow> [p] | _ \<Rightarrow> [])"
  by (cases e) simp_all

lemma reported_emit:
  "progressValues (events (emit e st)) =
     progressValues (events st) @ (case e of OnProgress p m \<Rightarrow> [p] | _ \<Rightarrow> [])"
  by (simp add: events_emit progressValues_append progressValues_single)

lemma progressBelow_mono: "progressBelow b st \<Longrightarrow> b \<le> b' \<Longrightarrow> progressBelow b' st"
  by (fastforce simp: progressBelow_def sorted_append)

lemma progressBelow_report:
  "progressBelow b st \<Longrightarrow> b \<le> p \<Longrightarrow> progressBelow p (emit (OnProgress p m) st)"
  by (fastforce simp: progressBelow_def sorted_append reported_emit)

lemma progressBelow_same:
  "progressValues (events st') = progressValues (events st) \<Longrightarrow> progressBelow b st \<Longrightarrow> progressBelow b st'"
  by (simp add: progressBelow_def)

lemma reported_setGain: "progressValues (events (setGain k g st)) = progressValues (events st)"
  by (simp add: setGain_def reported_emit)

lemma reported_drawSlot:
  "progressValues (events (drawSlot h width height k alpha clip xOffset st)) = progressValues (events st)"
  by (simp add: drawSlot_def reported_emit)

lemma reported_loadInto: "progressValues (events (snd (loadInto h k u st))) = progressValues (events st)"
  by (simp add: loadInto_def Let_def reported_emit)

lemma reported_seekTo: "progressValues (events (snd (seekTo h k time st))) = progressValues (events st)"
  by (simp add: seekTo_def Let_def reported_emit)

lemma reported_playVideo: "progressValues (events (snd (playVideo h k st))) = progressValues (events st)"
  by (simp add: playVideo_def reported_emit)

lemma reported_drawTransFrame:
  "progressValues (events (drawTransFrame h width height tt cur nxt t st)) = progressValues (events st)"
  by (simp add: drawTransFrame_def Let_def reported_drawSlot reported_setGain)

lemma reported_drawTrans:
  "progressValues (events (snd (drawTrans h width height tt td cur nxt nextStart cts st)))
     = progressValues (events st)"
  by (induction cts arbitrary: st) (simp_all add: drawTransTick_def reported_drawTransFrame)

lemma reported_swapSlots: "progressValues (events (swapSlots cur nxt st)) = progressValues (events st)"
  by (simp add: swapSlots_def reported_setGain reported_emit)

lemma progressBelow_andThen:
  assumes "progressBelow b (snd r)" and "b \<le> b'"
    and "\<And>s. progressBelow b s \<Longrightarrow> progressBelow b' (snd (f s))"
  shows "progressBelow b' (snd (andThen r f))"
  using assms by (auto simp: andThen_def intro: progressBelow_mono)

lemma progressBelow_reportSolo:
  "progressBelow (real i / real (length vs) * 100) st
   \<Longrightarrow> progressBelow (real i / real (length vs) * 100) (reportSolo vs i nowT st)"
  by (simp add: reportSolo_def progressBelow_def reported_emit sorted_append)

lemma progressBelow_drawSolo:
  "progressBelow (real i / real (length vs) * 100) st
   \<Longrightarrow> progressBelow (real i / real (length vs) * 100)
         (snd (drawSolo h width height vs i k soloEnd fs st))"
proof (induction fs arbitrary: st)
  case Nil
  then show ?case by simp
next
  case (Cons f fs)
  have "progressBelow (real i / real (length vs) * 100)
          (reportSolo vs i (now f) (drawSlot h width height k 1 None 0 st))"
    using Cons.prems
    by (intro progressBelow_reportSolo) (simp add: progressBelow_def reported_drawSlot)
  then show ?case using Cons.IH Cons.prems by simp
qed

lemma progressBelow_transitionInto:
  assumes "progressBelow (real i / real (length vs) * 100) st" and "vs \<noteq> []"
  shows "progressBelow ((real i + 0.9) / real (length vs) * 100)
           (snd (transitionInto h width height vs i ns cur nxt st))"
proof -
  let ?b = "(real i + 0.9) / real (length vs) * 100"
  have le: "real i / real (length vs) * 100 \<le> ?b"
    using assms(2) by (simp add: divide_right_mono)
  have q: "\<And>s s'. progressValues (events s') = progressValues (events s) \<Longrightarrow>
      progressBelow ?b s \<Longrightarrow> progressBelow ?b s'"
    by (rule progressBelow_same)
  have st2: "progressBelow ?b (emit (OnProgress ?b (PreparingTransitionTo (scene_number ns)))
               (emit RecorderPause st))"
    using assms(1) le
    by (intro progressBelow_report) (simp_all add: progressBelow_def reported_emit)
  show ?thesis
    unfolding transitionInto_def Let_def
    apply (rule progressBelow_andThen [where b = ?b])
      apply (rule q [OF reported_loadInto st2])
     apply simp
    apply (rule progressBelow_andThen [where b = ?b])
      apply (erule q [OF reported_seekTo])
     apply simp
    apply (rule progressBelow_andThen [where b = ?b])
      apply (erule q [OF reported_playVideo])
     apply simp
    apply (rule progressBelow_andThen [where b = ?b])
      apply (simp add: progressBelow_def reported_playVideo)
     apply simp
    apply (rule progressBelow_andThen [where b = ?b])
      apply (simp add: progressBelow_def reported_drawTrans reported_emit)
     apply simp
    apply (simp add: progressBelow_def reported_swapSlots)
    done
qed

lemma progressBelow_playScene:
  assumes "progressBelow (real i / real (length vs) * 100) st" and "vs \<noteq> []"
  shows "progressBelow (real (i + 1) / real (length vs) * 100)
           (snd (playScene h width height vs i st))"
proof -
  let ?a = "real i / real (length vs) * 100"
  let ?b = "real (i + 1) / real (length vs) * 100"
  have le: "?a \<le> ?b" using assms(2) by (simp add: divide_right_mono)
  have le9: "(real i + 0.9) / real (length vs) * 100 \<le> ?b"
    using assms(2) by (simp add: divide_right_mono)
  have first: "progressBelow ?a
      (snd (if i = 0 then andThen (seekTo h (activeSlotIndex st) (soloStartAt vs i) st)
                             (playVideo h (activeSlotIndex st))
            else (Running, st)))"
    using assms(1)
    by (auto simp: andThen_def progressBelow_def reported_seekTo reported_playVideo)
  have rest: "progressBelow ?b
      (snd (case nextSceneAt vs i of
              None \<Rightarrow> (Running, emit (VideoPause (activeSlotIndex st)) s)
            | Some nextScene \<Rightarrow> transitionInto h width height vs i nextScene (activeSlotIndex st)
                                (1 - activeSlotIndex st) s))"
    if a: "progressBelow ?a s" for s
  proof (cases "nextSceneAt vs i")
    case None
    have "progressBelow ?a (emit (VideoPause (activeSlotIndex st)) s)"
      using a by (simp add: progressBelow_def reported_emit)
    then have "progressBelow ?b (emit (VideoPause (activeSlotIndex st)) s)"
      using le by (rule progressBelow_mono)
    then show ?thesis using None by simp
  next
    case (Some ns)
    have "progressBelow ?b (snd (transitionInto h width height vs i ns (activeSlotIndex st)
                                   (1 - activeSlotIndex st) s))"
      using progressBelow_transitionInto [OF a assms(2)] le9 by (rule progressBelow_mono)
    then show ?thesis using Some by simp
  qed
  have solo: "progressBelow ?a
      (snd (andThen (if i = 0 then andThen (seekTo h (activeSlotIndex st) (soloStartAt vs i) st)
                             (playVideo h (activeSlotIndex st))
            else (Running, st))
         (drawSolo h width height vs i (activeSlotIndex st)
            (soloEndAt vs i (mediaDuration h (slotSrc st ! activeSlotIndex st))) (soloFrames h i))))"
    using first order_refl progressBelow_drawSolo by (rule progressBelow_andThen)
  then have solo': "progressBelow ?a (snd (soloPhase h width height vs i st))"
    by (simp add: soloPhase_def Let_def)
  show ?thesis
    unfolding playScene_def Let_def
    using solo' le rest by (rule progressBelow_andThen)
qed

lemma progressBelow_sceneLoop:
  "i \<le> length vs \<Longrightarrow> vs \<noteq> [] \<Longrightarrow> progressBelow (real i / real (length vs) * 100) st
   \<Longrightarrow> progressBelow 100 (snd (sceneLoop h width height vs i st))"
proof (induction h width height vs i st rule: sceneLoop.induct)
  case (1 h width height validScenes i st)
  show ?case
  proof (cases "i < length validScenes")
    case False
    with "1.prems" have "real i / real (length validScenes) * 100 = 100" by simp
    with "1.prems" False show ?thesis by (subst sceneLoop.simps) simp
  next
    case True
    let ?r = "playScene h width height validScenes i st"
    have b: "progressBelow (real (i + 1) / real (length validScenes) * 100) (snd ?r)"
      using "1.prems" by (intro progressBelow_playScene) simp_all
    have "real (i + 1) \<le> real (length validScenes)"
      using True by simp
    then have "real (i + 1) / real (length validScenes) \<le> 1"
      using True by (simp only: divide_le_eq_1) simp
    then have "real (i + 1) / real (length validScenes) * 100 \<le> 1 * 100"
      by (rule mult_right_mono) simp
    then have le: "real (i + 1) / real (length validScenes) * 100 \<le> 100"
      by (simp only: mult_1)
    show ?thesis
    proof (cases "fst ?r = Running")
      case False
      with True show ?thesis
        using progressBelow_mono [OF b le] by (subst sceneLoop.simps) (simp add: Let_def)
    next
      case r: True
      have "progressBelow 100 (snd (sceneLoop h width height validScenes (i + 1) (snd ?r)))"
        using True "1.prems"(2) b by (intro "1.IH" [OF True refl r]) simp_all
      with True r show ?thesis by (subst sceneLoop.simps) (simp add: Let_def)
    qed
  qed
qed


lemma andThen_Running:
  "fst (andThen r f) = Running \<Longrightarrow> fst r = Running \<and> andThen r f = f (snd r)"
  by (cases "fst r = Running") (simp_all add: andThen_def)

lemma progressBelow_tryBlock:
  assumes "progressValues (events st) = []" and "vs \<noteq> []"
  shows "progressBelow 100 (snd (tryBlock h width height vs st))"
proof -
  have z: "real 0 / real (length vs) * 100 = 0" by simp
  have s0: "progressBelow 0 (emit (OnProgress 0 PreparingScene1) st)"
    using assms(1) by (simp add: progressBelow_def reported_emit)
  have s1: "progressBelow 0 (snd (loadInto h (activeSlotIndex st) (urlOf (vs ! 0))
                (emit (OnProgress 0 PreparingScene1) st)))"
    using s0 by (simp add: progressBelow_def reported_loadInto)
  have loop: "progressBelow 100 (snd (sceneLoop h width height vs 0 s))"
    if "progressBelow 0 s" for s
    using that assms(2) by (intro progressBelow_sceneLoop) simp_all
  have fin: "progressBelow 100
       (snd (let s3 = emit RecorderStop (emit (OnProgress 100 Finalizing) s)
             in (Running, if bgMusicEl s3 \<noteq> None then emit BgMusicPause s3 else s3)))"
    if "progressBelow 100 s" for s
    using that by (simp add: Let_def progressBelow_def reported_emit sorted_append)
  have inner: "progressBelow 100
       (snd (andThen (sceneLoop h width height vs 0 s) (\<lambda>s2.
          (let s3 = emit RecorderStop (emit (OnProgress 100 Finalizing) s2)
           in (Running, if bgMusicEl s3 \<noteq> None then emit BgMusicPause s3 else s3)))))"
    if a: "progressBelow 0 s" for s
    using loop [OF a] order_refl fin by (rule progressBelow_andThen)
  show ?thesis
    unfolding tryBlock_def
    using s1 _ inner by (rule progressBelow_andThen) simp
qed

lemma tryBlock_Running_last:
  assumes "fst (tryBlock h width height vs st) = Running"
  shows "\<exists>ps. progressValues (events (snd (tryBlock h width height vs st))) = ps @ [100]"
proof -
  let ?l = "loadInto h (activeSlotIndex st) (urlOf (vs ! 0)) (emit (OnProgress 0 PreparingScene1) st)"
  let ?k = "\<lambda>s2. (let s3 = emit RecorderStop (emit (OnProgress 100 Finalizing) s2)
        in (Running, if bgMusicEl s3 \<noteq> None then emit BgMusicPause s3 else s3))"
  let ?g = "\<lambda>s1. andThen (sceneLoop h width height vs 0 s1) ?k"
  have t: "tryBlock h width height vs st = andThen ?l ?g"
    by (simp add: tryBlock_def)
  from assms t have 1: "tryBlock h width height vs st = ?g (snd ?l)" and f: "fst (?g (snd ?l)) = Running"
    using andThen_Running [of ?l ?g] by simp_all
  from f have 2: "?g (snd ?l) = ?k (snd (sceneLoop h width height vs 0 (snd ?l)))"
    using andThen_Running [of "sceneLoop h width height vs 0 (snd ?l)" ?k] by simp
  show ?thesis
    unfolding 1 2 by (simp add: Let_def reported_emit)
qed

lemma reported_setup:
  "progressValues (events (createSlot st)) = progressValues (events st)"
  "progressValues (events (setupBgMusic bg st)) = progressValues (events st)"
  by (simp_all add: createSlot_def setupBgMusic_def reported_emit split: option.splits)

lemma reported_noEngine: "progressValues (events noEngine) = []"
  by (simp add: noEngine_def)

section \<open>Slot volumes\<close>

lemma slotGain_emit: "slotGain (emit e st) = slotGain st"
  by (simp add: emit_def)

lemma slotGain_drawSlot: "slotGain (drawSlot h width height k alpha clip xOffset st) = slotGain st"
  by (simp add: drawSlot_def slotGain_emit)

lemma slotGain_setGain: "slotGain (setGain k g st) = (slotGain st)[k := g]"
  by (simp add: setGain_def slotGain_emit)

lemma slotGain_drawTransFrame:
  "slotGain (drawTransFrame h width height tt cur nxt t st) = (slotGain st)[cur := 1 - t, nxt := t]"
  by (simp add: drawTransFrame_def Let_def slotGain_drawSlot slotGain_setGain)

lemma slotGain_swapSlots:
  "slotGain (swapSlots cur nxt st) = (slotGain st)[cur := 1, nxt := 1]"
  by (simp add: swapSlots_def slotGain_setGain slotGain_emit)

lemma transitionProgress_range:
  "0 \<le> transitionProgress ct nextStart td \<and> transitionProgress ct nextStart td \<le> 1"
  by (simp add: transitionProgress_def Let_def)

lemma gainWritesInRange_append:
  "gainWritesInRange (xs @ ys) = (gainWritesInRange xs \<and> gainWritesInRange ys)"
  by (induction xs rule: gainWritesInRange.induct) simp_all

lemma gainWritesInRange_single:
  "gainWritesInRange [e] = (case e of SetGain k g \<Rightarrow> 0 \<le> g \<and> g \<le> 1 | _ \<Rightarrow> True)"
  by (cases e) simp_all

lemma gainsOk_emit:
  "gainsOk (emit e st) = (gainsOk st \<and> (case e of SetGain k g \<Rightarrow> 0 \<le> g \<and> g \<le> 1 | _ \<Rightarrow> True))"
  by (simp add: gainsOk_def events_emit gainWritesInRange_append gainWritesInRange_single)

lemma gainsOk_setGain: "0 \<le> g \<Longrightarrow> g \<le> 1 \<Longrightarrow> gainsOk st \<Longrightarrow> gainsOk (setGain k g st)"
  by (simp add: setGain_def gainsOk_def emit_def gainWritesInRange_append)

lemma gainsOk_drawSlot: "gainsOk (drawSlot h width height k alpha clip xOffset st) = gainsOk st"
  by (simp add: drawSlot_def gainsOk_emit)

lemma gainsOk_loadInto: "gainsOk st \<Longrightarrow> gainsOk (snd (loadInto h k u st))"
  by (simp add: loadInto_def Let_def gainsOk_def emit_def gainWritesInRange_append)

lemma gainsOk_seekTo: "gainsOk st \<Longrightarrow> gainsOk (snd (seekTo h k time st))"
  by (simp add: seekTo_def Let_def gainsOk_emit)

lemma gainsOk_playVideo: "gainsOk st \<Longrightarrow> gainsOk (snd (playVideo h k st))"
  by (simp add: playVideo_def gainsOk_emit)

lemma gainsOk_drawTransFrame:
  "0 \<le> t \<Longrightarrow> t \<le> 1 \<Longrightarrow> gainsOk st \<Longrightarrow> gainsOk (drawTransFrame h width height tt cur nxt t st)"
  by (simp add: drawTransFrame_def Let_def gainsOk_drawSlot gainsOk_setGain)

lemma gainsOk_drawTrans:
  "gainsOk st \<Longrightarrow> gainsOk (snd (drawTrans h width height tt td cur nxt nextStart cts st))"
proof (induction cts arbitrary: st)
  case Nil
  then show ?case by simp
next
  case (Cons ct cts)
  let ?t = "transitionProgress ct nextStart td"
  have "gainsOk (drawTransFrame h width height tt cur nxt ?t st)"
    using Cons.prems transitionProgress_range [of ct nextStart td]
    by (intro gainsOk_drawTransFrame) simp_all
  then show ?case
    using Cons.IH Cons.prems by (simp add: drawTransTick_def)
qed

lemma gainsOk_swapSlots: "gainsOk st \<Longrightarrow> gainsOk (swapSlots cur nxt st)"
  by (simp add: swapSlots_def gainsOk_def setGain_def emit_def gainWritesInRange_append)

lemma gainsOk_reportSolo: "gainsOk (reportSolo vs i nowT st) = gainsOk st"
  by (simp add: reportSolo_def gainsOk_def emit_def gainWritesInRange_append)

lemma gainsOk_drawSolo:
  "gainsOk st \<Longrightarrow> gainsOk (snd (drawSolo h width height vs i k soloEnd fs st))"
  by (induction fs arbitrary: st) (simp_all add: gainsOk_reportSolo gainsOk_drawSlot)

lemma gainsOk_andThen:
  assumes "gainsOk (snd r)" and "\<And>s. gainsOk s \<Longrightarrow> gainsOk (snd (f s))"
  shows "gainsOk (snd (andThen r f))"
  using assms by (simp add: andThen_def)

lemma gainsOk_transitionInto:
  assumes "gainsOk st"
  shows "gainsOk (snd (transitionInto h width height vs i ns cur nxt st))"
proof -
  have st2: "gainsOk (emit (OnProgress ((real i + 0.9) / real (length vs) * 100)
                        (PreparingTransitionTo (scene_number ns))) (emit RecorderPause st))"
    using assms by (simp add: gainsOk_emit)
  have replay: "gainsOk (snd (if pausedBeforeTransition h i then playVideo h cur s else (Running, s)))"
    if "gainsOk s" for s
    using that by (simp add: gainsOk_playVideo)
  have loop: "gainsOk (snd (andThen
        (drawTrans h width height (fst (transitionAt vs i)) (snd (transitionAt vs i)) cur nxt
           (orZero (trimStart ns)) (transFrames h i) (emit RecorderResume s))
        (\<lambda>s5. (Running, swapSlots cur nxt s5))))"
    if "gainsOk s" for s
    using that by (intro gainsOk_andThen gainsOk_drawTrans) (simp_all add: gainsOk_emit gainsOk_swapSlots)
  show ?thesis
    unfolding transitionInto_def Let_def
    by (intro gainsOk_andThen gainsOk_loadInto gainsOk_seekTo gainsOk_playVideo st2 replay loop)
qed

lemma gainsOk_playScene:
  assumes "gainsOk st"
  shows "gainsOk (snd (playScene h width height vs i st))"
proof -
  have first: "gainsOk
      (snd (if i = 0 then andThen (seekTo h (activeSlotIndex st) (soloStartAt vs i) st)
                             (playVideo h (activeSlotIndex st))
            else (Running, st)))"
    using assms by (simp add: gainsOk_andThen gainsOk_seekTo gainsOk_playVideo)
  have rest: "gainsOk
      (snd (case nextSceneAt vs i of
              None \<Rightarrow> (Running, emit (VideoPause (activeSlotIndex st)) s)
            | Some nextScene \<Rightarrow> transitionInto h width height vs i nextScene (activeSlotIndex st)
                                (1 - activeSlotIndex st) s))"
    if "gainsOk s" for s
    using that by (cases "nextSceneAt vs i") (simp_all add: gainsOk_emit gainsOk_transitionInto)
  have solo: "gainsOk (snd (soloPhase h width height vs i st))"
    unfolding soloPhase_def Let_def
    by (intro gainsOk_andThen gainsOk_drawSolo first)
  show ?thesis
    unfolding playScene_def Let_def
    by (intro gainsOk_andThen solo rest)
qed

lemma gainsOk_sceneLoop:
  "gainsOk st \<Longrightarrow> gainsOk (snd (sceneLoop h width height vs i st))"
proof (induction h width height vs i st rule: sceneLoop.induct)
  case (1 h width height validScenes i st)
  show ?case
  proof (cases "i < length validScenes")
    case False
    with "1.prems" show ?thesis by (subst sceneLoop.simps) simp
  next
    case True
    let ?r = "playScene h width height validScenes i st"
    have b: "gainsOk (snd ?r)" using "1.prems" by (rule gainsOk_playScene)
    show ?thesis
    proof (cases "fst ?r = Running")
      case False
      with True b show ?thesis by (subst sceneLoop.simps) (simp add: Let_def)
    next
      case r: True
      have "gainsOk (snd (sceneLoop h width height validScenes (i + 1) (snd ?r)))"
        using b by (rule "1.IH" [OF True refl r])
      with True r show ?thesis by (subst sceneLoop.simps) (simp add: Let_def)
    qed
  qed
qed

lemma gainsOk_tryBlock:
  assumes "gainsOk st"
  shows "gainsOk (snd (tryBlock h width height vs st))"
proof -
  have fin: "gainsOk
       (snd (let s3 = emit RecorderStop (emit (OnProgress 100 Finalizing) s)
             in (Running, if bgMusicEl s3 \<noteq> None then emit BgMusicPause s3 else s3)))"
    if "gainsOk s" for s
    using that by (simp add: Let_def gainsOk_emit)
  have s0: "gainsOk (emit (OnProgress 0 PreparingScene1) st)"
    using assms by (simp add: gainsOk_emit)
  show ?thesis
    unfolding tryBlock_def
    by (intro gainsOk_andThen gainsOk_loadInto gainsOk_sceneLoop s0 fin)
qed

lemma gainsOk_stitchVideos:
  "gainsOk (snd (stitchVideos h scenes bgMusic resolution format aspectRatio))"
proof -
  have slot: "gainsOk (createSlot st)" if "gainsOk st" for st
    using that by (simp add: createSlot_def gainsOk_def emit_def gainWritesInRange_append)
  have music: "gainsOk (setupBgMusic bgMusic st)" if "gainsOk st" for st
    using that by (simp add: setupBgMusic_def gainsOk_def emit_def gainWritesInRange_append
        split: option.splits)
  have n: "gainsOk noEngine" by (simp add: gainsOk_def noEngine_def)
  show ?thesis
    by (simp add: stitchVideos_def Let_def n gainsOk_emit slot music gainsOk_tryBlock)
qed

section \<open>Seeks and drawn frames of the engine\<close>

lemma seekTargets_append: "seekTargets (xs @ ys) = seekTargets xs @ seekTargets ys"
  by (induction xs rule: seekTargets.induct) simp_all

lemma seekTargets_single:
  "seekTargets [e] = (case e of SetCurrentTime k time \<Rightarrow> [(k, time)] | _ \<Rightarrow> [])"
  by (cases e) simp_all

lemma seeks_emit:
  "seekTargets (events (emit e st)) =
     seekTargets (events st) @ (case e of SetCurrentTime k time \<Rightarrow> [(k, time)] | _ \<Rightarrow> [])"
  by (simp add: events_emit seekTargets_append seekTargets_single)

lemma seeks_andThen:
  "seekTargets (events (snd (andThen r f))) =
     (if fst r = Running then seekTargets (events (snd (f (snd r))))
      else seekTargets (events (snd r)))"
  by (simp add: andThen_def)

lemma seeks_seekTo:
  "seekTargets (events (snd (seekTo h k time st))) = seekTargets (events st) @ [(k, time)]"
  by (simp add: seekTo_def Let_def seeks_emit)

lemma seeks_playVideo: "seekTargets (events (snd (playVideo h k st))) = seekTargets (events st)"
  by (simp add: playVideo_def seeks_emit)

lemma seeks_loadInto: "seekTargets (events (snd (loadInto h k u st))) = seekTargets (events st)"
  by (simp add: loadInto_def Let_def seeks_emit)

lemma seeks_drawSlot:
  "seekTargets (events (drawSlot h width height k alpha clip xOffset st)) = seekTargets (events st)"
  by (simp add: drawSlot_def seeks_emit)

lemma seeks_setGain: "seekTargets (events (setGain k g st)) = seekTargets (events st)"
  by (simp add: setGain_def seeks_emit)

lemma seeks_reportSolo: "seekTargets (events (reportSolo vs i nowT st)) = seekTargets (events st)"
  by (simp add: reportSolo_def seeks_emit)

lemma seeks_drawSolo:
  "seekTargets (events (snd (drawSolo h width height vs i k soloEnd fs st))) = seekTargets (events st)"
  by (induction fs arbitrary: st) (simp_all add: seeks_reportSolo seeks_drawSlot)

lemma seeks_drawTransFrame:
  "seekTargets (events (drawTransFrame h width height tt cur nxt t st)) = seekTargets (events st)"
  by (simp add: drawTransFrame_def Let_def seeks_drawSlot seeks_setGain)

lemma seeks_drawTrans:
  "seekTargets (events (snd (drawTrans h width height tt td cur nxt nextStart cts st)))
     = seekTargets (events st)"
  by (induction cts arbitrary: st) (simp_all add: drawTransTick_def seeks_drawTransFrame)

lemma seeks_swapSlots: "seekTargets (events (swapSlots cur nxt st)) = seekTargets (events st)"
  by (simp add: swapSlots_def seeks_setGain seeks_emit)

lemma loadInto_Running: "fst (loadInto h k u st) = Running \<longleftrightarrow> metadataLoads h u"
  by (simp add: loadInto_def Let_def)

lemma seeks_soloPhase:
  "seekTargets (events (snd (soloPhase h width height vs i st))) =
     seekTargets (events st) @ (if i = 0 then [(activeSlotIndex st, soloStartAt vs i)] else [])"
  by (simp add: soloPhase_def Let_def seeks_andThen seeks_drawSolo seeks_playVideo seeks_seekTo)

lemma seeks_transitionInto:
  "seekTargets (events (snd (transitionInto h width height vs i ns cur nxt st))) =
     seekTargets (events st) @ (if metadataLoads h (urlOf ns) then [(nxt, orZero (trimStart ns))] else [])"
  by (simp add: transitionInto_def Let_def seeks_andThen seeks_loadInto seeks_seekTo
      seeks_playVideo seeks_drawTrans seeks_swapSlots seeks_emit loadInto_Running)

lemma seeks_playScene:
  "seekTargets (events (snd (playScene h width height vs i st))) =
     seekTargets (events (snd (soloPhase h width height vs i st)))
     @ (if fst (soloPhase h width height vs i st) = Running \<and> i + 1 < length vs
           \<and> metadataLoads h (urlOf (vs ! (i + 1)))
        then [(1 - activeSlotIndex st, orZero (trimStart (vs ! (i + 1))))] else [])"
  by (simp add: playScene_def Let_def seeks_andThen nextSceneAt_def hasNextAt_def
      seeks_transitionInto seeks_emit)

lemma drawCount_append: "drawCount (xs @ ys) = drawCount xs + drawCount ys"
  by (induction xs rule: drawCount.induct) simp_all

lemma drawCount_single:
  "drawCount [e] = (case e of DrawImage k alpha clip r \<Rightarrow> 1 | _ \<Rightarrow> 0)"
  by (cases e) simp_all

lemma draws_emit:
  "drawCount (events (emit e st)) =
     drawCount (events st) + (case e of DrawImage k alpha clip r \<Rightarrow> 1 | _ \<Rightarrow> 0)"
  by (simp add: events_emit drawCount_append drawCount_single)

lemma draws_drawSlot:
  "drawCount (events (drawSlot h width height k alpha clip xOffset st)) = Suc (drawCount (events st))"
  by (simp add: drawSlot_def draws_emit)

lemma draws_reportSolo: "drawCount (events (reportSolo vs i nowT st)) = drawCount (events st)"
  by (simp add: reportSolo_def draws_emit)

lemma draws_drawSolo:
  "drawCount (events (snd (drawSolo h width height vs i k soloEnd fs st)))
     = drawCount (events st) + length (takeWhile (soloContinues soloEnd) fs)
   \<and> fst (drawSolo h width height vs i k soloEnd fs st)
     = (if list_all (soloContinues soloEnd) fs then Stalled else Running)"
proof (induction fs arbitrary: st)
  case Nil
  show ?case by simp
next
  case (Cons f fs)
  show ?case
  proof (cases "soloContinues soloEnd f")
    case True
    then have go: "\<not> (paused f \<or> ended f \<or> currentTime f \<ge> soloEnd)"
      by (auto simp: soloContinues_def)
    show ?thesis
      using True go Cons.IH [of "reportSolo vs i (now f) (drawSlot h width height k 1 None 0 st)"]
      by (simp add: draws_reportSolo draws_drawSlot)
  next
    case False
    then have stop: "paused f \<or> ended f \<or> currentTime f \<ge> soloEnd"
      by (auto simp: soloContinues_def)
    show ?thesis using False stop by simp
  qed
qed

lemma draws_soloPhase:
  assumes "i = 0 \<longrightarrow> seekCompletes h (slotSrc st ! activeSlotIndex st)
                    \<and> \<not> playRejects h (slotSrc st ! activeSlotIndex st)"
  shows "drawCount (events (snd (soloPhase h width height vs i st)))
     = drawCount (events st)
       + length (takeWhile (soloContinues (soloEndAt vs i (mediaDuration h (slotSrc st ! activeSlotIndex st))))
                   (soloFrames h i))
   \<and> fst (soloPhase h width height vs i st)
     = (if list_all (soloContinues (soloEndAt vs i (mediaDuration h (slotSrc st ! activeSlotIndex st))))
             (soloFrames h i)
        then Stalled else Running)"
proof (cases "i = 0")
  case False
  then show ?thesis
    by (simp add: soloPhase_def Let_def andThen_def draws_drawSolo)
next
  case True
  let ?cur = "activeSlotIndex st"
  have c: "seekCompletes h (slotSrc st ! ?cur)" "\<not> playRejects h (slotSrc st ! ?cur)"
    using assms True by simp_all
  have pre: "andThen (seekTo h ?cur start st) (playVideo h ?cur)
               = (Running, emit (VideoPlay ?cur) (emit (Seeked ?cur) (emit (SetCurrentTime ?cur start) st)))"
    for start
    using c by (simp add: seekTo_def playVideo_def andThen_def Let_def emit_def)
  have run: "andThen (Running, s) f = f s" for s and f :: "Engine \<Rightarrow> flow \<times> Engine"
    by (simp add: andThen_def)
  have d: "drawCount (events (emit (VideoPlay ?cur) (emit (Seeked ?cur) (emit (SetCurrentTime ?cur start) st))))
             = drawCount (events st)" for start
    by (simp add: draws_emit)
  show ?thesis
    using True by (simp add: soloPhase_def Let_def pre run draws_drawSolo d)
qed

section \<open>The trace only grows\<close>

lemma traceExtends_iff: "traceExtends st st' \<longleftrightarrow> (\<exists>es. events st' = events st @ es)"
  by (auto simp: traceExtends_def) (metis append_take_drop_id)

lemma traceExtends_refl: "traceExtends st st"
  by (simp add: traceExtends_def)

lemma traceExtends_trans: "traceExtends a b \<Longrightarrow> traceExtends b c \<Longrightarrow> traceExtends a c"
  by (auto simp: traceExtends_iff)

lemma traceExtends_emit: "traceExtends st st' \<Longrightarrow> traceExtends st (emit e st')"
  by (auto simp: traceExtends_iff events_emit)

lemma traceExtends_andThen:
  assumes "traceExtends st (snd r)" and "\<And>s. traceExtends s (snd (f s))"
  shows "traceExtends st (snd (andThen r f))"
  using assms traceExtends_trans by (auto simp: andThen_def)

lemma grows_setGain: "traceExtends st (setGain k g st)"
  by (simp add: traceExtends_iff setGain_def emit_def)

lemma grows_drawSlot: "traceExtends st (drawSlot h width height k alpha clip xOffset st)"
  by (simp add: traceExtends_iff drawSlot_def emit_def)

lemma grows_reportSolo: "traceExtends st (reportSolo vs i nowT st)"
  by (simp add: traceExtends_iff reportSolo_def emit_def)

lemma grows_loadInto: "traceExtends st (snd (loadInto h k u st))"
  by (simp add: traceExtends_iff loadInto_def Let_def emit_def)

lemma grows_seekTo: "traceExtends st (snd (seekTo h k time st))"
  by (simp add: traceExtends_iff seekTo_def Let_def emit_def)

lemma grows_playVideo: "traceExtends st (snd (playVideo h k st))"
  by (simp add: traceExtends_iff playVideo_def emit_def)

lemma grows_drawSolo: "traceExtends st (snd (drawSolo h width height vs i k soloEnd fs st))"
proof (induction fs arbitrary: st)
  case Nil
  show ?case by (simp add: traceExtends_refl)
next
  case (Cons f fs)
  have "traceExtends st (reportSolo vs i (now f) (drawSlot h width height k 1 None 0 st))"
    using grows_drawSlot grows_reportSolo by (rule traceExtends_trans)
  then show ?case
    using Cons.IH traceExtends_trans by (auto simp: traceExtends_refl)
qed

lemma grows_drawTransFrame: "traceExtends st (drawTransFrame h width height tt cur nxt t st)"
  by (simp add: traceExtends_iff drawTransFrame_def Let_def drawSlot_def setGain_def emit_def)

lemma grows_drawTrans:
  "traceExtends st (snd (drawTrans h width height tt td cur nxt nextStart cts st))"
proof (induction cts arbitrary: st)
  case Nil
  show ?case by (simp add: traceExtends_refl)
next
  case (Cons ct cts)
  let ?t = "transitionProgress ct nextStart td"
  show ?case
  proof (cases "?t \<ge> 1")
    case True
    then show ?thesis by (simp add: drawTransTick_def traceExtends_refl)
  next
    case False
    have "traceExtends st (snd (drawTrans h width height tt td cur nxt nextStart cts
             (drawTransFrame h width height tt cur nxt ?t st)))"
      using grows_drawTransFrame Cons.IH by (rule traceExtends_trans)
    then show ?thesis using False by (simp add: drawTransTick_def)
  qed
qed

lemma grows_swapSlots: "traceExtends st (swapSlots cur nxt st)"
  by (simp add: traceExtends_iff swapSlots_def setGain_def emit_def)

lemma grows_soloPhase: "traceExtends st (snd (soloPhase h width height vs i st))"
proof -
  have first: "traceExtends st
      (snd (if i = 0 then andThen (seekTo h (activeSlotIndex st) (soloStartAt vs i) st)
                             (playVideo h (activeSlotIndex st))
            else (Running, st)))"
    by (simp add: traceExtends_refl traceExtends_andThen grows_seekTo grows_playVideo)
  show ?thesis
    unfolding soloPhase_def Let_def
    using first grows_drawSolo by (rule traceExtends_andThen)
qed

lemma grows_transitionInto:
  "traceExtends st (snd (transitionInto h width height vs i ns cur nxt st))"
proof -
  let ?st2 = "emit (OnProgress ((real i + 0.9) / real (length vs) * 100)
                        (PreparingTransitionTo (scene_number ns))) (emit RecorderPause st)"
  have st2: "traceExtends st ?st2"
    by (intro traceExtends_emit traceExtends_refl)
  have l: "traceExtends st (snd (loadInto h nxt (urlOf ns) ?st2))"
    using st2 grows_loadInto by (rule traceExtends_trans)
  have replay: "traceExtends s (snd (if pausedBeforeTransition h i then playVideo h cur s else (Running, s)))"
    for s
    by (simp add: grows_playVideo traceExtends_refl)
  have loop: "traceExtends s (snd (andThen
        (drawTrans h width height (fst (transitionAt vs i)) (snd (transitionAt vs i)) cur nxt
           (orZero (trimStart ns)) (transFrames h i) (emit RecorderResume s))
        (\<lambda>s5. (Running, swapSlots cur nxt s5))))"
    for s
  proof -
    have "traceExtends s (emit RecorderResume s)"
      by (intro traceExtends_emit traceExtends_refl)
    then have "traceExtends s (snd (drawTrans h width height (fst (transitionAt vs i))
           (snd (transitionAt vs i)) cur nxt (orZero (trimStart ns)) (transFrames h i)
           (emit RecorderResume s)))"
      using grows_drawTrans by (rule traceExtends_trans)
    then show ?thesis
      by (rule traceExtends_andThen) (simp add: grows_swapSlots)
  qed
  show ?thesis
    unfolding transitionInto_def Let_def
    by (intro traceExtends_andThen l grows_seekTo grows_playVideo replay loop)
qed

lemma grows_playScene: "traceExtends st (snd (playScene h width height vs i st))"
proof -
  have rest: "traceExtends s
      (snd (case nextSceneAt vs i of
              None \<Rightarrow> (Running, emit (VideoPause (activeSlotIndex st)) s)
            | Some nextScene \<Rightarrow> transitionInto h width height vs i nextScene (activeSlotIndex st)
                                (1 - activeSlotIndex st) s))"
    for s
    by (cases "nextSceneAt vs i")
       (simp_all add: grows_transitionInto traceExtends_emit traceExtends_refl)
  show ?thesis
    unfolding playScene_def Let_def
    using grows_soloPhase rest by (rule traceExtends_andThen)
qed

lemma grows_sceneLoop: "traceExtends st (snd (sceneLoop h width height vs i st))"
proof (induction h width height vs i st rule: sceneLoop.induct)
  case (1 h width height validScenes i st)
  show ?case
  proof (cases "i < length validScenes")
    case False
    then show ?thesis by (subst sceneLoop.simps) (simp add: traceExtends_refl)
  next
    case True
    let ?r = "playScene h width height validScenes i st"
    have b: "traceExtends st (snd ?r)" by (rule grows_playScene)
    show ?thesis
    proof (cases "fst ?r = Running")
      case False
      with True b show ?thesis by (subst sceneLoop.simps) (simp add: Let_def)
    next
      case r: True
      have "traceExtends (snd ?r) (snd (sceneLoop h width height validScenes (i + 1) (snd ?r)))"
        by (rule "1.IH" [OF True refl r])
      with b have "traceExtends st (snd (sceneLoop h width height validScenes (i + 1) (snd ?r)))"
        by (rule traceExtends_trans)
      with True r show ?thesis by (subst sceneLoop.simps) (simp add: Let_def)
    qed
  qed
qed

lemma grows_tryBlock: "traceExtends st (snd (tryBlock h width height vs st))"
proof -
  have s1: "traceExtends st (snd (loadInto h (activeSlotIndex st) (urlOf (vs ! 0))
                (emit (OnProgress 0 PreparingScene1) st)))"
    using traceExtends_emit [OF traceExtends_refl] grows_loadInto by (rule traceExtends_trans)
  have fin: "traceExtends s
       (snd (let s3 = emit RecorderStop (emit (OnProgress 100 Finalizing) s)
             in (Running, if bgMusicEl s3 \<noteq> None then emit BgMusicPause s3 else s3)))"
    for s
    by (simp add: Let_def traceExtends_emit traceExtends_refl)
  have inner: "traceExtends s
       (snd (andThen (sceneLoop h width height vs 0 s) (\<lambda>s2.
          (let s3 = emit RecorderStop (emit (OnProgress 100 Finalizing) s2)
           in (Running, if bgMusicEl s3 \<noteq> None then emit BgMusicPause s3 else s3)))))"
    for s
    using grows_sceneLoop fin by (rule traceExtends_andThen)
  show ?thesis
    unfolding tryBlock_def
    using s1 inner by (rule traceExtends_andThen)
qed

section \<open>Evaluating the engine on concrete inputs\<close>

text \<open>
  The continuation of \<open>andThen\<close> and the body of a \<open>let\<close> are only rewritten
  once the state they receive is known.
\<close>

lemma andThen_simps:
  "andThen (Running, st) f = f st"
  "andThen (Thrown, st) f = (Thrown, st)"
  "andThen (Stalled, st) f = (Stalled, st)"
  by (simp_all add: andThen_def)

lemma andThen_weak_cong: "r = r' \<Longrightarrow> andThen r f = andThen r' f"
  by simp

lemmas engine_defs =
  stitchVideos_def validScenesOf_def isValidScene_def Let_def tryBlock_def andThen_simps
  loadInto_def emit_def noEngine_def createSlot_def setupBgMusic_def playScene_def seekTo_def
  playVideo_def soloPhase_def nextSceneAt_def hasNextAt_def soloEndAt_def soloStartAt_def soloEndTime_def
  sceneEnd_def transitionAt_def transitionOf_def transitionTypeOf_def transitionDurationOf_def
  orZero_def urlOf_def drawSlot_def reportSolo_def selectMimeType_def transitionInto_def
  drawTransTick_def drawTransFrame_def transitionProgress_def setGain_def swapSlots_def
  canvasWidth_def canvasHeight_def videoBitsPerSecond_def drawScaledRect_def coverScale_def
  sceneLoop.simps exampleHost_def rejectingHost_def exampleScene_def twoSlots_def

text \<open>One completed scene, no music, on the example host.\<close>

lemma solo_run:
  "stitchVideos exampleHost [exampleScene ''a'' None None None] None R_720p F_mp4 AR_16_9 =
     (Resolved ''video/webm'',
      \<lparr>activeSlotIndex = 0, lastProgressUpdate = 1000, slotSrc = [''a'', []],
       slotGain = [1, 1], bgMusicEl = None, bgGain = None,
       events =
         [CreateCanvas 1280 720, CreateAudioContext, CreateSlot 0, CreateSlot 1,
          CreateRecorder ''video/webm'' 5000000, RecorderStart,
          OnProgress 0 PreparingScene1, SetSrc 0 ''a'', LoadedMetadata 0,
          SetCurrentTime 0 0, Seeked 0, VideoPlay 0,
          DrawImage 0 1 None \<lparr>rx = 0, ry = 0, rw = 1280, rh = 720\<rparr>,
          OnProgress 0 (ProcessingScene 1), VideoPause 0,
          OnProgress 100 Finalizing, RecorderStop, ReleaseResources]\<rparr>)"
  by (simp add: engine_defs cong: andThen_weak_cong let_weak_cong)

text \<open>The same scene on the host whose \<open>play()\<close> rejects.\<close>

lemma rejected_run:
  "stitchVideos rejectingHost [exampleScene ''a'' None None None] None R_720p F_mp4 AR_16_9 =
     (Rejected (Err ''Stitching failed.''),
      \<lparr>activeSlotIndex = 0, lastProgressUpdate = 0, slotSrc = [''a'', []],
       slotGain = [1, 1], bgMusicEl = None, bgGain = None,
       events =
         [CreateCanvas 1280 720, CreateAudioContext, CreateSlot 0, CreateSlot 1,
          CreateRecorder ''video/webm'' 5000000, RecorderStart,
          OnProgress 0 PreparingScene1, SetSrc 0 ''a'', LoadedMetadata 0,
          SetCurrentTime 0 0, Seeked 0, ReleaseResources]\<rparr>)"
  by (simp add: engine_defs cong: andThen_weak_cong let_weak_cong)

text \<open>Two scenes, the second carrying \<open>fade(1s)\<close>, with background music at volume 1/2.\<close>

lemma fade_run:
  "stitchVideos exampleHost
       [exampleScene ''a'' None None None,
        exampleScene ''b'' None None (Some \<lparr>ttype = T_fade, tduration = 1\<rparr>)]
       (Some \<lparr>url = ''m'', volume = 1 / 2\<rparr>) R_720p F_mp4 AR_16_9 =
     (Resolved ''video/webm'',
      \<lparr>activeSlotIndex = 1, lastProgressUpdate = 1000, slotSrc = [''a'', ''b''],
       slotGain = [1, 1], bgMusicEl = Some (''m'', 1 / 2), bgGain = Some (1 / 2),
       events =
         [CreateCanvas 1280 720, CreateAudioContext, CreateSlot 0, CreateSlot 1,
          CreateBgMusic ''m'' (1 / 2) (1 / 2),
          CreateRecorder ''video/webm'' 5000000, RecorderStart, BgMusicPlay,
          OnProgress 0 PreparingScene1, SetSrc 0 ''a'', LoadedMetadata 0,
          SetCurrentTime 0 0, Seeked 0, VideoPlay 0,
          DrawImage 0 1 None \<lparr>rx = 0, ry = 0, rw = 1280, rh = 720\<rparr>,
          OnProgress 0 (ProcessingScene 1), RecorderPause,
          OnProgress 45 (PreparingTransitionTo 1), SetSrc 1 ''b'',
          LoadedMetadata 1, SetCurrentTime 1 0, Seeked 1, VideoPlay 1,
          RecorderResume, SetGain 0 1, SetGain 1 0,
          DrawImage 0 1 None \<lparr>rx = 0, ry = 0, rw = 1280, rh = 720\<rparr>,
          DrawImage 1 0 None \<lparr>rx = 0, ry = 0, rw = 1280, rh = 720\<rparr>,
          SetGain 0 (1 / 2), SetGain 1 (1 / 2),
          DrawImage 0 1 None \<lparr>rx = 0, ry = 0, rw = 1280, rh = 720\<rparr>,
          DrawImage 1 (1 / 2) None \<lparr>rx = 0, ry = 0, rw = 1280, rh = 720\<rparr>,
          VideoPause 0, SetGain 0 1, SetGain 1 1,
          DrawImage 1 1 None \<lparr>rx = 0, ry = 0, rw = 1280, rh = 720\<rparr>,
          VideoPause 1, OnProgress 100 Finalizing, RecorderStop, BgMusicPause,
          ReleaseResources]\<rparr>)"
  by (simp add: engine_defs cong: andThen_weak_cong let_weak_cong)

text \<open>The second scene trimmed by 3 s at its head, on the host made for it.\<close>

lemma trimmed_run:
  "stitchVideos trimmedHost
       [exampleScene ''a'' None None None,
        exampleScene ''b'' (Some 3) None (Some \<lparr>ttype = T_fade, tduration = 1\<rparr>)]
       None R_720p F_mp4 AR_16_9 =
     (Resolved ''video/webm'',
      \<lparr>activeSlotIndex = 1, lastProgressUpdate = 3000, slotSrc = [''a'', ''b''],
       slotGain = [1, 1], bgMusicEl = None, bgGain = None,
       events =
         [CreateCanvas 1280 720, CreateAudioContext, CreateSlot 0, CreateSlot 1,
          CreateRecorder ''video/webm'' 5000000, RecorderStart,
          OnProgress 0 PreparingScene1, SetSrc 0 ''a'', LoadedMetadata 0,
          SetCurrentTime 0 0, Seeked 0, VideoPlay 0,
          DrawImage 0 1 None \<lparr>rx = 0, ry = 0, rw = 1280, rh = 720\<rparr>,
          OnProgress 0 (ProcessingScene 1), RecorderPause,
          OnProgress 45 (PreparingTransitionTo 1), SetSrc 1 ''b'',
          LoadedMetadata 1, SetCurrentTime 1 3, Seeked 1, VideoPlay 1,
          RecorderResume, SetGain 0 1, SetGain 1 0,
          DrawImage 0 1 None \<lparr>rx = 0, ry = 0, rw = 1280, rh = 720\<rparr>,
          DrawImage 1 0 None \<lparr>rx = 0, ry = 0, rw = 1280, rh = 720\<rparr>,
          SetGain 0 (1 / 2), SetGain 1 (1 / 2),
          DrawImage 0 1 None \<lparr>rx = 0, ry = 0, rw = 1280, rh = 720\<rparr>,
          DrawImage 1 (1 / 2) None \<lparr>rx = 0, ry = 0, rw = 1280, rh = 720\<rparr>,
          VideoPause 0, SetGain 0 1, SetGain 1 1,
          DrawImage 1 1 None \<lparr>rx = 0, ry = 0, rw = 1280, rh = 720\<rparr>,
          OnProgress 50 (ProcessingScene 1), VideoPause 1,
          OnProgress 100 Finalizing, RecorderStop, ReleaseResources]\<rparr>)"
  by (simp add: engine_defs trimmedHost_def cong: andThen_weak_cong let_weak_cong)

text \<open>One scene with music on the host that supports no recording type.\<close>

lemma no_codec_run:
  "stitchVideos noCodecHost [exampleScene ''a'' None None None]
       (Some \<lparr>url = ''m'', volume = 1 / 2\<rparr>) R_720p F_mp4 AR_16_9 =
     (Rejected NotSupportedError,
      \<lparr>activeSlotIndex = 0, lastProgressUpdate = 0, slotSrc = [[], []],
       slotGain = [1, 1], bgMusicEl = Some (''m'', 1 / 2), bgGain = Some (1 / 2),
       events =
         [CreateCanvas 1280 720, CreateAudioContext, CreateSlot 0, CreateSlot 1,
          CreateBgMusic ''m'' (1 / 2) (1 / 2)]\<rparr>)"
  by (simp add: engine_defs noCodecHost_def cong: andThen_weak_cong let_weak_cong)

text \<open>One scene on the host that supports vp9 and plain webm.\<close>

lemma vp9_run:
  "stitchVideos vp9Host [exampleScene ''a'' None None None] None R_720p F_mp4 AR_16_9 =
     (Resolved ''video/webm;codecs=vp9'',
      \<lparr>activeSlotIndex = 0, lastProgressUpdate = 1000, slotSrc = [''a'', []],
       slotGain = [1, 1], bgMusicEl = None, bgGain = None,
       events =
         [CreateCanvas 1280 720, CreateAudioContext, CreateSlot 0, CreateSlot 1,
          CreateRecorder ''video/webm;codecs=vp9'' 5000000, RecorderStart,
          OnProgress 0 PreparingScene1, SetSrc 0 ''a'', LoadedMetadata 0,
          SetCurrentTime 0 0, Seeked 0, VideoPlay 0,
          DrawImage 0 1 None \<lparr>rx = 0, ry = 0, rw = 1280, rh = 720\<rparr>,
          OnProgress 0 (ProcessingScene 1), VideoPause 0,
          OnProgress 100 Finalizing, RecorderStop, ReleaseResources]\<rparr>)"
  by (simp add: engine_defs vp9Host_def cong: andThen_weak_cong let_weak_cong)

section \<open>Properties\<close>

text \<open>
  C1, as the code has it. A timeline scene is sought to \<open>trimStart\<close> once, before it
  first plays: the first scene at the start of its solo phase, a later scene before
  the transition into it, so that its solo phase goes on from where that transition
  ended, with no seek of its own. The solo phase renders the frames it is given until
  the scene's time reaches \<open>soloEnd\<close> (or the scene is paused or has ended), where
  \<open>soloEnd = max(trimStart, nativeEnd - transitionDuration)\<close> when a next scene
  exists and \<open>soloEnd = nativeEnd\<close> for the last scene,
  \<open>nativeEnd = min(nativeDuration, nativeDuration - trimEnd)\<close>, which is
  \<open>nativeDuration - trimEnd\<close> for \<open>trimEnd \<ge> 0\<close>, and \<open>transitionDuration\<close>
  is that of the transition rendered after the scene, 0 when it is \<open>none\<close>.
\<close>

theorem solo_phase_interval:
  assumes "i < length validScenes"
  shows "seekTargets (events (snd (soloPhase h width height validScenes i st)))
           = seekTargets (events st)
             @ (if i = 0 then [(activeSlotIndex st, orZero (trimStart (validScenes ! i)))] else [])
     \<and> seekTargets (events (snd (playScene h width height validScenes i st)))
           = seekTargets (events (snd (soloPhase h width height validScenes i st)))
             @ (if fst (soloPhase h width height validScenes i st) = Running
                   \<and> i + 1 < length validScenes
                   \<and> metadataLoads h (urlOf (validScenes ! (i + 1)))
                then [(1 - activeSlotIndex st, orZero (trimStart (validScenes ! (i + 1))))] else [])
     \<and> ((i = 0 \<longrightarrow> seekCompletes h (slotSrc st ! activeSlotIndex st)
                      \<and> \<not> playRejects h (slotSrc st ! activeSlotIndex st))
          \<longrightarrow> drawCount (events (snd (soloPhase h width height validScenes i st)))
                = drawCount (events st)
                  + length (takeWhile
                      (soloContinues (soloEndAt validScenes i
                         (mediaDuration h (slotSrc st ! activeSlotIndex st))))
                      (soloFrames h i))
              \<and> fst (soloPhase h width height validScenes i st)
                = (if list_all
                       (soloContinues (soloEndAt validScenes i
                          (mediaDuration h (slotSrc st ! activeSlotIndex st))))
                       (soloFrames h i)
                   then Stalled else Running))
     \<and> soloEndAt validScenes i nativeDuration =
         (if i + 1 < length validScenes
          then max (orZero (trimStart (validScenes ! i)))
                 (min nativeDuration (nativeDuration - orZero (trimEnd (validScenes ! i)))
                    - snd (transitionAt validScenes i))
          else min nativeDuration (nativeDuration - orZero (trimEnd (validScenes ! i))))
     \<and> (0 \<le> orZero (trimEnd (validScenes ! i))
          \<longrightarrow> min nativeDuration (nativeDuration - orZero (trimEnd (validScenes ! i)))
                = nativeDuration - orZero (trimEnd (validScenes ! i)))
     \<and> (fst (transitionAt validScenes i) = T_none \<longrightarrow> snd (transitionAt validScenes i) = 0)"
proof -
  have s: "seekTargets (events (snd (soloPhase h width height validScenes i st)))
           = seekTargets (events st)
             @ (if i = 0 then [(activeSlotIndex st, orZero (trimStart (validScenes ! i)))] else [])"
    by (simp add: seeks_soloPhase soloStartAt_def)
  have e: "soloEndAt validScenes i nativeDuration =
         (if i + 1 < length validScenes
          then max (orZero (trimStart (validScenes ! i)))
                 (min nativeDuration (nativeDuration - orZero (trimEnd (validScenes ! i)))
                    - snd (transitionAt validScenes i))
          else min nativeDuration (nativeDuration - orZero (trimEnd (validScenes ! i))))"
    by (simp add: soloEndAt_def soloStartAt_def soloEndTime_def hasNextAt_def sceneEnd_def)
  have d: "fst (transitionAt validScenes i) = T_none \<Longrightarrow> snd (transitionAt validScenes i) = 0"
    by (cases "transitionOf (nextSceneAt validScenes i)")
       (simp_all add: transitionAt_def transitionDurationOf_def Let_def)
  show ?thesis
    using s e d seeks_playScene [of h width height validScenes i st]
      draws_soloPhase [of i h st width height validScenes]
    by (simp add: min_def)
qed

theorem solo_phase_interval_witness:
  "seekTargets (events (snd (soloPhase exampleHost 1280 720
       [exampleScene ''a'' (Some 1) (Some 2) None,
        exampleScene ''b'' None None (Some \<lparr>ttype = T_fade, tduration = 1\<rparr>)] 0 twoSlots))) = [(0, 1)]
   \<and> drawCount (events (snd (soloPhase exampleHost 1280 720
       [exampleScene ''a'' (Some 1) (Some 2) None,
        exampleScene ''b'' None None (Some \<lparr>ttype = T_fade, tduration = 1\<rparr>)] 0 twoSlots))) = 1
   \<and> soloEndAt
       [exampleScene ''a'' (Some 1) (Some 2) None,
        exampleScene ''b'' None None (Some \<lparr>ttype = T_fade, tduration = 1\<rparr>)] 0 8 = 5
   \<and> seekTargets (events (snd (soloPhase exampleHost 1280 720
       [exampleScene ''a'' (Some 1) (Some 2) None,
        exampleScene ''b'' None None (Some \<lparr>ttype = T_fade, tduration = 1\<rparr>)] 1 (twoSlots\<lparr>activeSlotIndex := 1\<rparr>)))) = []
   \<and> soloEndAt
       [exampleScene ''a'' (Some 1) (Some 2) None,
        exampleScene ''b'' None None (Some \<lparr>ttype = T_fade, tduration = 1\<rparr>)] 1 8 = 8"
  using solo_phase_interval [where i = 0 and h = exampleHost and width = 1280 and height = 720
      and st = twoSlots and nativeDuration = 8 and validScenes = "[exampleScene ''a'' (Some 1) (Some 2) None,
        exampleScene ''b'' None None (Some \<lparr>ttype = T_fade, tduration = 1\<rparr>)]"]
    solo_phase_interval [where i = 1 and h = exampleHost and width = 1280 and height = 720
      and st = "twoSlots\<lparr>activeSlotIndex := 1\<rparr>" and nativeDuration = 8 and validScenes = "[exampleScene ''a'' (Some 1) (Some 2) None,
        exampleScene ''b'' None None (Some \<lparr>ttype = T_fade, tduration = 1\<rparr>)]"]
  by (simp add: engine_defs soloContinues_def cong: andThen_weak_cong let_weak_cong)

text \<open>
  C1 as stated fails twice. An over-trimmed scene (8 s, 7 s cut from the head and 2 s
  from the tail) with a next scene and no transition has \<open>soloEnd = 7\<close>, not
  \<open>nativeEnd = 6\<close>. And a second scene with \<open>trimStart = 3\<close> entered by a 1 s
  fade is sought to 3 s before the transition, the transition runs until the scene's
  time is 4 s, and the scene's solo frames follow with no further seek: its solo phase
  does not start from \<open>trimStart\<close>.
\<close>

theorem solo_phase_counterexample:
  "fst (transitionAt [exampleScene ''a'' (Some 7) (Some 2) None, exampleScene ''b'' None None None] 0) = T_none
   \<and> soloEndAt [exampleScene ''a'' (Some 7) (Some 2) None, exampleScene ''b'' None None None] 0 8 = 7
   \<and> soloEndAt [exampleScene ''a'' (Some 7) (Some 2) None, exampleScene ''b'' None None None] 0 8 \<noteq> 8 - orZero (trimEnd (exampleScene ''a'' (Some 7) (Some 2) None))
   \<and> seekTargets (events (snd (stitchVideos trimmedHost
       [exampleScene ''a'' None None None,
        exampleScene ''b'' (Some 3) None (Some \<lparr>ttype = T_fade, tduration = 1\<rparr>)]
       None R_720p F_mp4 AR_16_9))) = [(0, 0), (1, 3)]
   \<and> transitionProgress (7 / 2) 3 1 = 1 / 2
   \<and> transitionProgress 4 3 1 = 1
   \<and> drop 16 (events (snd (stitchVideos trimmedHost
       [exampleScene ''a'' None None None,
        exampleScene ''b'' (Some 3) None (Some \<lparr>ttype = T_fade, tduration = 1\<rparr>)]
       None R_720p F_mp4 AR_16_9)))
       = [SetSrc 1 ''b'', LoadedMetadata 1, SetCurrentTime 1 3, Seeked 1, VideoPlay 1,
          RecorderResume, SetGain 0 1, SetGain 1 0,
          DrawImage 0 1 None \<lparr>rx = 0, ry = 0, rw = 1280, rh = 720\<rparr>,
          DrawImage 1 0 None \<lparr>rx = 0, ry = 0, rw = 1280, rh = 720\<rparr>,
          SetGain 0 (1 / 2), SetGain 1 (1 / 2),
          DrawImage 0 1 None \<lparr>rx = 0, ry = 0, rw = 1280, rh = 720\<rparr>,
          DrawImage 1 (1 / 2) None \<lparr>rx = 0, ry = 0, rw = 1280, rh = 720\<rparr>,
          VideoPause 0, SetGain 0 1, SetGain 1 1,
          DrawImage 1 1 None \<lparr>rx = 0, ry = 0, rw = 1280, rh = 720\<rparr>,
          OnProgress 50 (ProcessingScene 1), VideoPause 1,
          OnProgress 100 Finalizing, RecorderStop, ReleaseResources]"
  by (simp add: trimmed_run)
     (simp add: transitionAt_def nextSceneAt_def hasNextAt_def transitionOf_def
        transitionTypeOf_def transitionDurationOf_def exampleScene_def soloEndAt_def
        soloStartAt_def soloEndTime_def sceneEnd_def orZero_def transitionProgress_def)

text \<open>
  C6, as the code has it. The transition rendered between timeline scenes \<open>i\<close> and
  \<open>i + 1\<close> is the one configured on scene \<open>i + 1\<close> (its \<open>transition\<close> field: the
  transition into that scene); after the last scene there is none; the configuration
  on the first scene is never used.
\<close>

theorem transition_configured_on_next_scene:
  "(i + 1 < length validScenes \<longrightarrow>
      transitionAt validScenes i =
        (transitionTypeOf (transition (validScenes ! (i + 1))),
         transitionDurationOf (transition (validScenes ! (i + 1)))))
   \<and> (\<not> i + 1 < length validScenes \<longrightarrow> transitionAt validScenes i = (T_none, 0))
   \<and> (validScenes \<noteq> [] \<longrightarrow>
        transitionAt (validScenes[0 := (validScenes ! 0)\<lparr>transition := tr\<rparr>]) i = transitionAt validScenes i)"
proof -
  have n: "validScenes \<noteq> [] \<Longrightarrow>
      nextSceneAt (validScenes[0 := (validScenes ! 0)\<lparr>transition := tr\<rparr>]) i = nextSceneAt validScenes i"
    by (simp add: nextSceneAt_def hasNextAt_def)
  have l: "\<not> i + 1 < length validScenes \<Longrightarrow> transitionAt validScenes i = (T_none, 0)"
    by (simp add: transitionAt_def nextSceneAt_def hasNextAt_def transitionOf_def
        transitionTypeOf_def transitionDurationOf_def)
  have m: "i + 1 < length validScenes \<Longrightarrow> transitionAt validScenes i =
        (transitionTypeOf (transition (validScenes ! (i + 1))),
         transitionDurationOf (transition (validScenes ! (i + 1))))"
    by (simp add: transitionAt_def nextSceneAt_def hasNextAt_def transitionOf_def Let_def)
  show ?thesis
    using n l m by (simp add: transitionAt_def)
qed

theorem transition_configured_on_next_scene_witness:
  "transitionAt [exampleScene ''a'' None None None,
                 exampleScene ''b'' None None (Some \<lparr>ttype = T_fade, tduration = 1\<rparr>)] 0 = (T_fade, 1)
   \<and> transitionAt [exampleScene ''a'' None None None,
                 exampleScene ''b'' None None (Some \<lparr>ttype = T_fade, tduration = 1\<rparr>)] 1 = (T_none, 0)
   \<and> transitionAt [exampleScene ''a'' None None (Some \<lparr>ttype = T_wipe_left, tduration = 2\<rparr>),
                   exampleScene ''b'' None None (Some \<lparr>ttype = T_fade, tduration = 1\<rparr>)] 0 = (T_fade, 1)"
  using transition_configured_on_next_scene [of 0 "[exampleScene ''a'' None None None,
                 exampleScene ''b'' None None (Some \<lparr>ttype = T_fade, tduration = 1\<rparr>)]"
                 "Some \<lparr>ttype = T_wipe_left, tduration = 2\<rparr>"]
    transition_configured_on_next_scene [of 1 "[exampleScene ''a'' None None None,
                 exampleScene ''b'' None None (Some \<lparr>ttype = T_fade, tduration = 1\<rparr>)]" None]
  by (simp add: exampleScene_def transitionTypeOf_def transitionDurationOf_def)

text \<open>
  C6 as stated fails: scene a carries \<open>fade(1s)\<close> and is followed by scene b, which
  carries no transition; what is rendered between them is not a's configuration.
\<close>

theorem transition_from_own_configuration_counterexample:
  "transitionAt [exampleScene ''a'' None None (Some \<lparr>ttype = T_fade, tduration = 1\<rparr>),
                 exampleScene ''b'' None None None] 0
     \<noteq> (transitionTypeOf (transition (exampleScene ''a'' None None (Some \<lparr>ttype = T_fade, tduration = 1\<rparr>))),
         transitionDurationOf (transition (exampleScene ''a'' None None (Some \<lparr>ttype = T_fade, tduration = 1\<rparr>))))"
  by (simp add: transitionAt_def nextSceneAt_def hasNextAt_def transitionOf_def
      transitionTypeOf_def transitionDurationOf_def exampleScene_def)

text \<open>
  C8. A source frame of positive size drawn with zero offset onto an output surface of
  positive size is scaled by \<open>max(outW/srcW, outH/srcH)\<close>, is centred on the surface,
  and its rectangle contains the whole surface.
\<close>

theorem cover_fit_covers_surface:
  assumes "0 < srcW" and "0 < srcH" and "0 < outW" and "0 < outH"
  shows "coverScale outW outH srcW srcH = max (outW / srcW) (outH / srcH)
     \<and> rw (drawScaledRect outW outH srcW srcH 0) = srcW * coverScale outW outH srcW srcH
     \<and> rh (drawScaledRect outW outH srcW srcH 0) = srcH * coverScale outW outH srcW srcH
     \<and> rx (drawScaledRect outW outH srcW srcH 0) + rw (drawScaledRect outW outH srcW srcH 0) / 2 = outW / 2
     \<and> ry (drawScaledRect outW outH srcW srcH 0) + rh (drawScaledRect outW outH srcW srcH 0) / 2 = outH / 2
     \<and> coversSurface (drawScaledRect outW outH srcW srcH 0) outW outH"
proof -
  let ?s = "coverScale outW outH srcW srcH"
  have "outW / srcW \<le> ?s" and "outH / srcH \<le> ?s"
    by (simp_all add: coverScale_def)
  then have w: "outW \<le> srcW * ?s" and h: "outH \<le> srcH * ?s"
    using assms by (simp_all add: pos_divide_le_eq mult.commute)
  show ?thesis
    using w h by (simp add: drawScaledRect_def Let_def coversSurface_def coverScale_def field_simps)
qed

theorem cover_fit_covers_surface_witness:
  "drawScaledRect 720 1280 1280 720 0 = \<lparr>rx = - 7000 / 9, ry = 0, rw = 20480 / 9, rh = 1280\<rparr>
   \<and> coversSurface (drawScaledRect 720 1280 1280 720 0) 720 1280"
  using cover_fit_covers_surface [of 1280 720 720 1280]
  by (simp add: drawScaledRect_def coverScale_def Let_def)

text \<open>
  C9. For \<open>t\<close> in \<open>[0,1]\<close> the part of the wipe_left clip path on the surface is
  \<open>[width(1-t), width] \<times> [0, height]\<close>, that of wipe_right is
  \<open>[0, width t] \<times> [0, height]\<close>, and each is the mirror image of the other under
  \<open>x \<mapsto> width - x\<close>.
\<close>

theorem wipe_reveal_rectangles:
  assumes "0 \<le> t" and "t \<le> 1" and "0 \<le> width" and "0 \<le> height"
  shows "clipToSurface width height (wipeLeftClip width height t)
           = \<lparr>left = width * (1 - t), top = 0, right = width, bottom = height\<rparr>
     \<and> clipToSurface width height (wipeRightClip width height t)
           = \<lparr>left = 0, top = 0, right = width * t, bottom = height\<rparr>
     \<and> mirrorBox width (clipToSurface width height (wipeLeftClip width height t))
           = clipToSurface width height (wipeRightClip width height t)
     \<and> mirrorBox width (clipToSurface width height (wipeRightClip width height t))
           = clipToSurface width height (wipeLeftClip width height t)"
proof -
  have a: "0 \<le> width * (1 - t)" using assms by simp
  have b: "width * t \<le> width" using assms by (simp add: mult_left_le)
  have c: "0 \<le> width * t" using assms by simp
  show ?thesis
    using a b c assms
    by (simp add: clipToSurface_def wipeLeftClip_def wipeRightClip_def mirrorBox_def Let_def
        min_def max_def algebra_simps)
qed

theorem wipe_reveal_rectangles_witness:
  "clipToSurface 1280 720 (wipeLeftClip 1280 720 (1/4))
      = \<lparr>left = 960, top = 0, right = 1280, bottom = 720\<rparr>
   \<and> clipToSurface 1280 720 (wipeRightClip 1280 720 (1/4))
      = \<lparr>left = 0, top = 0, right = 320, bottom = 720\<rparr>"
  using wipe_reveal_rectangles [of "1/4" 1280 720] by simp

text \<open>
  C3, as the code has it. In every stitch invocation the percent values passed to the
  progress callback are in non-decreasing order; in every invocation that resolves,
  the last value reported is exactly 100.
\<close>

theorem progress_monotone_and_final:
  "sorted (progressValues (events (snd (stitchVideos h scenes bgMusic resolution format aspectRatio))))
   \<and> (\<forall>mimeType. fst (stitchVideos h scenes bgMusic resolution format aspectRatio) = Resolved mimeType
        \<longrightarrow> progressValues (events (snd (stitchVideos h scenes bgMusic resolution format aspectRatio))) \<noteq> []
          \<and> last (progressValues (events (snd (stitchVideos h scenes bgMusic resolution format aspectRatio)))) = 100)"
proof (cases "validScenesOf scenes = [] \<or> \<not> hasContext2d h
               \<or> \<not> isTypeSupported h (selectMimeType format (isTypeSupported h))")
  case True
  then show ?thesis
    by (auto simp: stitchVideos_def Let_def reported_noEngine reported_emit reported_setup)
next
  case False
  let ?vs = "validScenesOf scenes"
  let ?w = "canvasWidth aspectRatio resolution"
  let ?ht = "canvasHeight aspectRatio resolution"
  let ?st4 = "emit RecorderStart
                (emit (CreateRecorder (selectMimeType format (isTypeSupported h)) (videoBitsPerSecond resolution))
                   (setupBgMusic bgMusic
                      (createSlot (createSlot (emit CreateAudioContext (emit (CreateCanvas ?w ?ht) noEngine))))))"
  let ?st5 = "if bgMusicEl ?st4 \<noteq> None then emit BgMusicPlay ?st4 else ?st4"
  let ?r = "tryBlock h ?w ?ht ?vs ?st5"
  have e: "progressValues (events ?st5) = []"
    by (simp add: reported_emit reported_setup reported_noEngine)
  have vs: "?vs \<noteq> []" using False by simp
  have b: "progressBelow 100 (snd ?r)"
    using e vs by (rule progressBelow_tryBlock)
  then have srt: "sorted (progressValues (events (snd ?r)))"
    by (simp add: progressBelow_def sorted_append)
  have res: "stitchVideos h scenes bgMusic resolution format aspectRatio =
      (if fst ?r = Running then (Resolved (selectMimeType format (isTypeSupported h)), emit ReleaseResources (snd ?r))
       else if fst ?r = Thrown then (Rejected (Err ''Stitching failed.''), emit ReleaseResources (snd ?r))
       else (Pending, snd ?r))"
    using False by (simp add: stitchVideos_def Let_def)
  have sorted_all: "sorted (progressValues (events (snd (stitchVideos h scenes bgMusic resolution format aspectRatio))))"
    using srt by (simp add: res reported_emit)
  have final: "progressValues (events (snd (stitchVideos h scenes bgMusic resolution format aspectRatio))) \<noteq> []
          \<and> last (progressValues (events (snd (stitchVideos h scenes bgMusic resolution format aspectRatio)))) = 100"
    if "fst (stitchVideos h scenes bgMusic resolution format aspectRatio) = Resolved mimeType" for mimeType
  proof -
    from that have run: "fst ?r = Running"
      by (simp add: res split: if_splits)
    then obtain ps where "progressValues (events (snd ?r)) = ps @ [100]"
      using tryBlock_Running_last by blast
    then show ?thesis using run by (simp add: res reported_emit)
  qed
  show ?thesis using sorted_all final by blast
qed


theorem progress_monotone_and_final_witness:
  "fst (stitchVideos exampleHost
       [exampleScene ''a'' None None None,
        exampleScene ''b'' None None (Some \<lparr>ttype = T_fade, tduration = 1\<rparr>)]
       (Some \<lparr>url = ''m'', volume = 1 / 2\<rparr>) R_720p F_mp4 AR_16_9) = Resolved ''video/webm''
   \<and> progressValues (events (snd (stitchVideos exampleHost
       [exampleScene ''a'' None None None,
        exampleScene ''b'' None None (Some \<lparr>ttype = T_fade, tduration = 1\<rparr>)]
       (Some \<lparr>url = ''m'', volume = 1 / 2\<rparr>) R_720p F_mp4 AR_16_9))) = [0, 0, 45, 100]
   \<and> sorted (progressValues (events (snd (stitchVideos exampleHost
       [exampleScene ''a'' None None None,
        exampleScene ''b'' None None (Some \<lparr>ttype = T_fade, tduration = 1\<rparr>)]
       (Some \<lparr>url = ''m'', volume = 1 / 2\<rparr>) R_720p F_mp4 AR_16_9))))
   \<and> last (progressValues (events (snd (stitchVideos exampleHost
       [exampleScene ''a'' None None None,
        exampleScene ''b'' None None (Some \<lparr>ttype = T_fade, tduration = 1\<rparr>)]
       (Some \<lparr>url = ''m'', volume = 1 / 2\<rparr>) R_720p F_mp4 AR_16_9)))) = 100"
  using progress_monotone_and_final [of exampleHost
       "[exampleScene ''a'' None None None,
        exampleScene ''b'' None None (Some \<lparr>ttype = T_fade, tduration = 1\<rparr>)]"
       "Some \<lparr>url = ''m'', volume = 1 / 2\<rparr>" R_720p F_mp4 AR_16_9]
  by (simp add: fade_run)

text \<open>
  C3 as stated fails for an invocation that does not complete: when \<open>play()\<close>
  rejects on the first scene the stitch is rejected and the last value reported is 0.
\<close>

theorem progress_final_counterexample:
  "fst (stitchVideos rejectingHost [exampleScene ''a'' None None None] None R_720p F_mp4 AR_16_9) = Rejected (Err ''Stitching failed.'')
   \<and> progressValues (events (snd (stitchVideos rejectingHost [exampleScene ''a'' None None None] None R_720p F_mp4 AR_16_9))) = [0]
   \<and> last (progressValues (events (snd (stitchVideos rejectingHost [exampleScene ''a'' None None None] None R_720p F_mp4 AR_16_9)))) \<noteq> 100"
  by (simp add: rejected_run)

text \<open>
  C4. When no input scene has status completed, \<open>stitchVideos\<close> is rejected with
  the error "No completed videos to stitch." (the empty-timeline error) and the engine
  is still the untouched initial one: no canvas, audio context, slot, music element or
  recorder has been created, and no event has happened.
\<close>

theorem empty_timeline_rejected:
  assumes "filter (\<lambda>s. status s = S_completed) scenes = []"
  shows "stitchVideos h scenes bgMusic resolution format aspectRatio
           = (Rejected (Err ''No completed videos to stitch.''), noEngine)
     \<and> events noEngine = [] \<and> slotSrc noEngine = [] \<and> slotGain noEngine = []
     \<and> bgMusicEl noEngine = None \<and> bgGain noEngine = None"
proof -
  have "validScenesOf scenes = []"
    using assms by (auto simp: validScenesOf_def isValidScene_def filter_empty_conv)
  then show ?thesis
    by (simp add: stitchVideos_def noEngine_def)
qed

theorem empty_timeline_rejected_witness:
  "stitchVideos exampleHost [(exampleScene ''a'' None None None)\<lparr>status := S_pending\<rparr>]
      (Some \<lparr>url = ''m'', volume = 1 / 2\<rparr>) R_720p F_mp4 AR_16_9
     = (Rejected (Err ''No completed videos to stitch.''), noEngine)
   \<and> events noEngine = []"
  using empty_timeline_rejected [of "[(exampleScene ''a'' None None None)\<lparr>status := S_pending\<rparr>]"
      exampleHost "Some \<lparr>url = ''m'', volume = 1 / 2\<rparr>" R_720p F_mp4 AR_16_9]
  by (simp add: exampleScene_def)

text \<open>
  C2, as the code has it. A call of \<open>drawTrans\<close> with \<open>0 \<le> t < 1\<close> sets the
  outgoing slot's gain to \<open>1 - t\<close> and the incoming slot's gain to \<open>t\<close>, both
  in \<open>[0,1]\<close>, and at \<open>t = 0\<close> exactly 1 and 0; a call with \<open>t \<ge> 1\<close> ends
  the phase and writes no gain; the normalised time is always in \<open>[0,1]\<close>; the
  swap sets both gains to exactly 1; and every gain written during any stitch lies in
  \<open>[0,1]\<close>.
\<close>

theorem transition_tick_volumes:
  assumes "length (slotGain st) = 2" and "cur < 2" and "nxt = 1 - cur"
  shows "(0 \<le> t \<and> t < 1 \<longrightarrow>
            fst (drawTransTick h width height tt cur nxt t st) = False
          \<and> slotGain (snd (drawTransTick h width height tt cur nxt t st)) ! cur = 1 - t
          \<and> slotGain (snd (drawTransTick h width height tt cur nxt t st)) ! nxt = t
          \<and> 0 \<le> 1 - t \<and> 1 - t \<le> 1 \<and> 0 \<le> t \<and> t \<le> 1)
     \<and> (t = 0 \<longrightarrow>
            slotGain (snd (drawTransTick h width height tt cur nxt t st)) ! cur = 1
          \<and> slotGain (snd (drawTransTick h width height tt cur nxt t st)) ! nxt = 0)
     \<and> (1 \<le> t \<longrightarrow> drawTransTick h width height tt cur nxt t st = (True, st))
     \<and> 0 \<le> transitionProgress ct nextStart td \<and> transitionProgress ct nextStart td \<le> 1
     \<and> slotGain (swapSlots cur nxt st) ! cur = 1 \<and> slotGain (swapSlots cur nxt st) ! nxt = 1
     \<and> gainWritesInRange (events (snd (stitchVideos h scenes bgMusic resolution format aspectRatio)))"
proof -
  have g: "gainWritesInRange (events (snd (stitchVideos h scenes bgMusic resolution format aspectRatio)))"
    using gainsOk_stitchVideos [of h scenes bgMusic resolution format aspectRatio]
    by (simp add: gainsOk_def)
  have "cur = 0 \<or> cur = 1" using assms(2) by arith
  then have ne: "cur \<noteq> nxt" using assms(3) by auto
  have c: "cur < length (slotGain st)" and n: "nxt < length (slotGain st)"
    using assms by simp_all
  have tick: "t < 1 \<Longrightarrow> slotGain (snd (drawTransTick h width height tt cur nxt t st))
                = (slotGain st)[cur := 1 - t, nxt := t]"
    by (simp add: drawTransTick_def slotGain_drawTransFrame)
  have a: "t < 1 \<Longrightarrow> slotGain (snd (drawTransTick h width height tt cur nxt t st)) ! cur = 1 - t"
    using ne c n by (simp add: tick)
  have b: "t < 1 \<Longrightarrow> slotGain (snd (drawTransTick h width height tt cur nxt t st)) ! nxt = t"
    using ne c n by (simp add: tick)
  have e: "1 \<le> t \<Longrightarrow> drawTransTick h width height tt cur nxt t st = (True, st)"
    by (simp add: drawTransTick_def)
  have f: "t < 1 \<Longrightarrow> fst (drawTransTick h width height tt cur nxt t st) = False"
    by (simp add: drawTransTick_def)
  have s: "slotGain (swapSlots cur nxt st) ! cur = 1 \<and> slotGain (swapSlots cur nxt st) ! nxt = 1"
    using ne c n by (simp add: slotGain_swapSlots)
  show ?thesis
    using a b e f s g transitionProgress_range [of ct nextStart td] by auto
qed

theorem transition_tick_volumes_witness:
  "slotGain (snd (drawTransTick exampleHost 1280 720 T_fade 0 1 (1 / 4) twoSlots)) = [3 / 4, 1 / 4]
   \<and> slotGain (snd (drawTransTick exampleHost 1280 720 T_fade 0 1 0 twoSlots)) = [1, 0]
   \<and> drawTransTick exampleHost 1280 720 T_fade 0 1 1 halfway = (True, halfway)
   \<and> slotGain (swapSlots 0 1 halfway) = [1, 1]"
  using transition_tick_volumes [of twoSlots 0 1 "1 / 4" exampleHost 1280 720 T_fade 0 0 1]
    transition_tick_volumes [of twoSlots 0 1 0 exampleHost 1280 720 T_fade 0 0 1]
    transition_tick_volumes [of halfway 0 1 1 exampleHost 1280 720 T_fade 0 0 1]
  by (simp add: halfway_def engine_defs cong: andThen_weak_cong let_weak_cong)

text \<open>
  C2 as stated fails at \<open>t = 1\<close>: after a frame at \<open>t = 1/2\<close> the gains are
  (1/2, 1/2), and the call at \<open>t = 1\<close> leaves them there rather than at (0, 1).
\<close>

theorem final_tick_volumes_counterexample:
  "transitionProgress 1 0 1 = 1
   \<and> slotGain halfway = [1 / 2, 1 / 2]
   \<and> slotGain (snd (drawTransTick exampleHost 1280 720 T_fade 0 1 (transitionProgress 1 0 1) halfway))
       = [1 / 2, 1 / 2]
   \<and> slotGain (snd (drawTransTick exampleHost 1280 720 T_fade 0 1 (transitionProgress 1 0 1) halfway))
       \<noteq> [0, 1]"
  by (simp add: halfway_def engine_defs cong: andThen_weak_cong let_weak_cong)

text \<open>
  C7. With a non-empty timeline and a canvas context, the recorder's MIME type is the
  first supported entry of the preference list (video/mp4, video/webm;codecs=h264,
  video/webm;codecs=vp9, then the default video/webm): the recorder is created with
  it and a resolved stitch delivers it. When no entry is supported, the stitch fails
  at the recorder's construction with the host's \<open>NotSupportedError\<close> (the
  encoding-unsupported error), before the recorder starts or any clip is prepared.
\<close>

theorem codec_selection:
  assumes "validScenesOf scenes \<noteq> []" and "hasContext2d h"
  shows "(list_all (\<lambda>m. \<not> isTypeSupported h m) codecPreference \<longrightarrow>
            stitchVideos h scenes bgMusic resolution format aspectRatio =
              (Rejected NotSupportedError,
               setupBgMusic bgMusic (createSlot (createSlot (emit CreateAudioContext
                 (emit (CreateCanvas (canvasWidth aspectRatio resolution)
                          (canvasHeight aspectRatio resolution)) noEngine))))))
     \<and> (\<forall>m. find (isTypeSupported h) codecPreference = Some m \<longrightarrow>
            selectMimeType format (isTypeSupported h) = m
          \<and> CreateRecorder m (videoBitsPerSecond resolution)
              \<in> set (events (snd (stitchVideos h scenes bgMusic resolution format aspectRatio)))
          \<and> fst (stitchVideos h scenes bgMusic resolution format aspectRatio) \<noteq> Rejected NotSupportedError
          \<and> (\<forall>m'. fst (stitchVideos h scenes bgMusic resolution format aspectRatio) = Resolved m'
                \<longrightarrow> m' = m))"
proof -
  let ?sel = "selectMimeType format (isTypeSupported h)"
  let ?w = "canvasWidth aspectRatio resolution"
  let ?ht = "canvasHeight aspectRatio resolution"
  let ?st3 = "setupBgMusic bgMusic (createSlot (createSlot (emit CreateAudioContext
                 (emit (CreateCanvas ?w ?ht) noEngine))))"
  let ?st4' = "emit (CreateRecorder ?sel (videoBitsPerSecond resolution)) ?st3"
  let ?st4 = "emit RecorderStart ?st4'"
  let ?st5 = "if bgMusicEl ?st4 \<noteq> None then emit BgMusicPlay ?st4 else ?st4"
  let ?r = "tryBlock h ?w ?ht (validScenesOf scenes) ?st5"
  let ?run = "stitchVideos h scenes bgMusic resolution format aspectRatio"
  have fmt: "format = F_mp4 \<or> format = F_mov" by (cases format) simp_all
  have none: "?run = (Rejected NotSupportedError, ?st3)"
    if "list_all (\<lambda>m. \<not> isTypeSupported h m) codecPreference"
  proof -
    from that fmt have "\<not> isTypeSupported h ?sel"
      by (auto simp: codecPreference_def selectMimeType_def)
    then show ?thesis using assms by (simp add: stitchVideos_def Let_def)
  qed
  have some: "?sel = m
          \<and> CreateRecorder m (videoBitsPerSecond resolution) \<in> set (events (snd ?run))
          \<and> fst ?run \<noteq> Rejected NotSupportedError
          \<and> (\<forall>m'. fst ?run = Resolved m' \<longrightarrow> m' = m)"
    if f: "find (isTypeSupported h) codecPreference = Some m" for m
  proof -
    from f fmt have sel: "?sel = m"
      by (auto simp: codecPreference_def selectMimeType_def split: if_splits)
    from f have "isTypeSupported h m"
      by (auto simp: find_Some_iff)
    with sel have sup: "isTypeSupported h ?sel" by simp
    have res: "?run =
        (if fst ?r = Running then (Resolved ?sel, emit ReleaseResources (snd ?r))
         else if fst ?r = Thrown then (Rejected (Err ''Stitching failed.''), emit ReleaseResources (snd ?r))
         else (Pending, snd ?r))"
      using assms sup by (simp add: stitchVideos_def Let_def)
    have "traceExtends ?st4' ?st5"
      by (simp add: traceExtends_emit traceExtends_refl)
    then have "traceExtends ?st4' (snd ?r)"
      using grows_tryBlock by (rule traceExtends_trans)
    then have "traceExtends ?st4' (snd ?run)"
      by (simp add: res traceExtends_emit)
    then obtain es where "events (snd ?run) = events ?st4' @ es"
      by (auto simp: traceExtends_iff)
    then have mem: "CreateRecorder ?sel (videoBitsPerSecond resolution) \<in> set (events (snd ?run))"
      by (simp add: events_emit)
    have nf: "fst ?run \<noteq> Rejected NotSupportedError"
      by (simp add: res)
    have rs: "\<forall>m'. fst ?run = Resolved m' \<longrightarrow> m' = ?sel"
      by (simp add: res)
    show ?thesis using sel mem nf rs by simp
  qed
  show ?thesis using none some by blast
qed

theorem codec_selection_witness:
  "fst (stitchVideos noCodecHost [exampleScene ''a'' None None None]
       (Some \<lparr>url = ''m'', volume = 1 / 2\<rparr>) R_720p F_mp4 AR_16_9) = Rejected NotSupportedError
   \<and> events (snd (stitchVideos noCodecHost [exampleScene ''a'' None None None]
       (Some \<lparr>url = ''m'', volume = 1 / 2\<rparr>) R_720p F_mp4 AR_16_9))
       = [CreateCanvas 1280 720, CreateAudioContext, CreateSlot 0, CreateSlot 1,
          CreateBgMusic ''m'' (1 / 2) (1 / 2)]
   \<and> find (isTypeSupported vp9Host) codecPreference = Some ''video/webm;codecs=vp9''
   \<and> selectMimeType F_mp4 (isTypeSupported vp9Host) = ''video/webm;codecs=vp9''
   \<and> CreateRecorder ''video/webm;codecs=vp9'' (videoBitsPerSecond R_720p) \<in> set (events (snd (stitchVideos vp9Host [exampleScene ''a'' None None None] None R_720p F_mp4 AR_16_9)))
   \<and> fst (stitchVideos vp9Host [exampleScene ''a'' None None None] None R_720p F_mp4 AR_16_9) = Resolved ''video/webm;codecs=vp9''"
proof -
  have v: "validScenesOf [exampleScene ''a'' None None None] \<noteq> []"
    by (simp add: validScenesOf_def isValidScene_def exampleScene_def)
  have c1: "hasContext2d noCodecHost"
    by (simp add: noCodecHost_def exampleHost_def)
  have c2: "hasContext2d vp9Host"
    by (simp add: vp9Host_def exampleHost_def)
  have n: "list_all (\<lambda>m. \<not> isTypeSupported noCodecHost m) codecPreference"
    by (simp add: noCodecHost_def codecPreference_def)
  have f: "find (isTypeSupported vp9Host) codecPreference = Some ''video/webm;codecs=vp9''"
    by (simp add: vp9Host_def codecPreference_def)
  have a: "fst (stitchVideos noCodecHost [exampleScene ''a'' None None None]
       (Some \<lparr>url = ''m'', volume = 1 / 2\<rparr>) R_720p F_mp4 AR_16_9) = Rejected NotSupportedError"
    using codec_selection [OF v c1, of "Some \<lparr>url = ''m'', volume = 1 / 2\<rparr>" R_720p F_mp4 AR_16_9] n
    by (simp only: fst_conv)
  have b: "selectMimeType F_mp4 (isTypeSupported vp9Host) = ''video/webm;codecs=vp9''
      \<and> CreateRecorder ''video/webm;codecs=vp9'' (videoBitsPerSecond R_720p) \<in> set (events (snd (stitchVideos vp9Host [exampleScene ''a'' None None None] None R_720p F_mp4 AR_16_9)))"
    using codec_selection [OF v c2, of None R_720p F_mp4 AR_16_9] f
    by blast
  show ?thesis
    using a b f by (simp add: no_codec_run vp9_run)
qed

text \<open>
  C5 does not hold of the code for the first clip: \<open>recorder.start()\<close> comes before
  the first scene is loaded and sought, and nothing pauses the recorder in between, so
  it is recording during that load and seek. In the two-scene run, from the first
  \<open>play()\<close> on, the recorder is paused at every load and seek event: the second
  clip's load is bracketed by \<open>pause()\<close> and \<open>resume()\<close>.
\<close>

theorem first_clip_loads_while_recording:
  "take 11 (events (snd (stitchVideos exampleHost [exampleScene ''a'' None None None] None R_720p F_mp4 AR_16_9)))
     = [CreateCanvas 1280 720, CreateAudioContext, CreateSlot 0, CreateSlot 1,
        CreateRecorder ''video/webm'' 5000000, RecorderStart, OnProgress 0 PreparingScene1,
        SetSrc 0 ''a'', LoadedMetadata 0, SetCurrentTime 0 0, Seeked 0]
   \<and> \<not> sinkPausedDuringLoads Rec_inactive (events (snd (stitchVideos exampleHost [exampleScene ''a'' None None None] None R_720p F_mp4 AR_16_9)))
   \<and> sinkPausedDuringLoads Rec_recording
         (drop 13 (events (snd (stitchVideos exampleHost
            [exampleScene ''a'' None None None,
             exampleScene ''b'' None None (Some \<lparr>ttype = T_fade, tduration = 1\<rparr>)]
            (Some \<lparr>url = ''m'', volume = 1 / 2\<rparr>) R_720p F_mp4 AR_16_9))))"
  by (simp add: solo_run fade_run)

text \<open>
  C10 does not hold of the code for a volume strictly between 0 and 1: the configured
  volume is written both to the music element's \<open>volume\<close> and to its gain node, so
  the track reaches the mix at the square of the configured volume (1/4 for 1/2).
\<close>

theorem background_volume_applied_twice:
  "bgMusicEl (snd (stitchVideos exampleHost
       [exampleScene ''a'' None None None,
        exampleScene ''b'' None None (Some \<lparr>ttype = T_fade, tduration = 1\<rparr>)]
       (Some \<lparr>url = ''m'', volume = 1 / 2\<rparr>) R_720p F_mp4 AR_16_9)) = Some (''m'', 1 / 2)
   \<and> bgGain (snd (stitchVideos exampleHost
       [exampleScene ''a'' None None None,
        exampleScene ''b'' None None (Some \<lparr>ttype = T_fade, tduration = 1\<rparr>)]
       (Some \<lparr>url = ''m'', volume = 1 / 2\<rparr>) R_720p F_mp4 AR_16_9)) = Some (1 / 2)
   \<and> bgEffectiveVolume (snd (stitchVideos exampleHost
       [exampleScene ''a'' None None None,
        exampleScene ''b'' None None (Some \<lparr>ttype = T_fade, tduration = 1\<rparr>)]
       (Some \<lparr>url = ''m'', volume = 1 / 2\<rparr>) R_720p F_mp4 AR_16_9)) = Some (1 / 4)
   \<and> bgEffectiveVolume (snd (stitchVideos exampleHost
       [exampleScene ''a'' None None None,
        exampleScene ''b'' None None (Some \<lparr>ttype = T_fade, tduration = 1\<rparr>)]
       (Some \<lparr>url = ''m'', volume = 1 / 2\<rparr>) R_720p F_mp4 AR_16_9)) \<noteq> Some (1 / 2)"
  by (simp add: fade_run bgEffectiveVolume_def)

end
